theory Spec2Isabelle
  imports Complex_Main "HOL-Library.Sublist" "HOL-Library.Multiset"
begin

section \<open>Data model of \<open>src/src/parser.py\<close>\<close>

text \<open>
  The parser works on the dictionaries PyMuPDF hands out. A key read with \<open>d['k']\<close> is a
  field that is always there; a key read with \<open>d.get('k', default)\<close> is an optional field.
  Font sizes and coordinates are Python floats; they are modelled as reals (every finite
  float is a rational number, and the parser only compares them, subtracts them from the
  page height and rounds them). Python strings are modelled as lists of 8-bit characters.
\<close>

type_synonym rect = "real \<times> real \<times> real \<times> real"

record span =
  span_size :: real
  span_font :: string
  span_text :: "string option"

record line =
  line_spans :: "span list option"

record block =
  block_type :: "int option"
  block_bbox :: rect
  block_lines :: "line list option"

text \<open>The two attributes of a \<open>PDFParser\<close> object.\<close>

record tracker =
  current_section :: string
  current_sub_section :: "string option"

text \<open>\<open>PDFParser.__init__\<close>\<close>

definition init_tracker :: tracker where
  "init_tracker = \<lparr>current_section = ''Default'', current_sub_section = None\<rparr>"

section \<open>Strings\<close>

text \<open>
  \<open>str.strip()\<close> removes leading and trailing whitespace. Within 8-bit characters the
  whitespace of Python is tab, line feed, vertical tab, form feed, carriage return, the four
  separators \<open>0x1c\<close> to \<open>0x1f\<close>, the space, \<open>0x85\<close> and \<open>0xa0\<close>.
\<close>

definition isspace :: "char \<Rightarrow> bool" where
  "isspace c = (let n = (of_char c :: nat) in
     (9 \<le> n \<and> n \<le> 13) \<or> (28 \<le> n \<and> n \<le> 32) \<or> n = 133 \<or> n = 160)"

definition strip :: "string \<Rightarrow> string" where
  "strip s = rev (dropWhile isspace (rev (dropWhile isspace s)))"

text \<open>\<open>str.lower()\<close> on the letters \<open>A\<close> to \<open>Z\<close>; every other character is kept.\<close>

definition lower_char :: "char \<Rightarrow> char" where
  "lower_char c = (let n = (of_char c :: nat) in
     if 65 \<le> n \<and> n \<le> 90 then char_of (n + 32) else c)"

definition lower :: "string \<Rightarrow> string" where
  "lower s = map lower_char s"

text \<open>\<open>sep.join(xs)\<close> for the separator \<open>"\n"\<close>.\<close>

fun join_newline :: "string list \<Rightarrow> string" where
  "join_newline [] = []"
| "join_newline [x] = x"
| "join_newline (x # y # ys) = x @ [CHR 0x0A] @ join_newline (y # ys)"

text \<open>
  The built-in \<open>round\<close> of Python on a float: to the nearest integer, a tie going to the
  even neighbour.
\<close>

definition py_round :: "real \<Rightarrow> int" where
  "py_round x = (let f = \<lfloor>x\<rfloor>; d = x - of_int f in
     if d < 1 / 2 then f
     else if 1 / 2 < d then f + 1
     else if even f then f else f + 1)"

section \<open>Style Classifier: \<open>get_text_style\<close>\<close>

definition is_bold :: "span \<Rightarrow> bool" where
  "is_bold sp = sublist ''bold'' (lower (span_font sp))"

definition get_text_style :: "span \<Rightarrow> string" where
  "get_text_style sp =
     (let font_size = py_round (span_size sp);
          bold = is_bold sp
      in if font_size > 15 then ''h1''
         else if font_size \<ge> 12 \<and> bold then ''h2''
         else if font_size > 12 then ''h2''
         else ''p'')"

section \<open>Text Block Normalizer: \<open>extract_clean_text\<close>\<close>

text \<open>\<open>"".join(span.get('text', '') for span in line.get('spans', []))\<close>\<close>

definition line_text :: "line \<Rightarrow> string" where
  "line_text l =
     concat (map (\<lambda>sp. case span_text sp of None \<Rightarrow> [] | Some t \<Rightarrow> t)
                 (case line_spans l of None \<Rightarrow> [] | Some sps \<Rightarrow> sps))"

text \<open>The loop \<open>full_text += line_text.strip() + "\n"\<close>, with \<open>full_text\<close> as accumulator.\<close>

fun clean_loop :: "string \<Rightarrow> line list \<Rightarrow> string" where
  "clean_loop full_text [] = full_text"
| "clean_loop full_text (l # ls) = clean_loop (full_text @ strip (line_text l) @ [CHR 0x0A]) ls"

definition extract_clean_text :: "block \<Rightarrow> string" where
  "extract_clean_text b =
     strip (clean_loop [] (case block_lines b of None \<Rightarrow> [] | Some ls \<Rightarrow> ls))"

text \<open>
  The texts of the lines of a block, as the normalizer reads them. A block is already
  normalized when none of them changes under \<open>strip\<close> and their join by single newlines
  does not change either.
\<close>

definition block_texts :: "block \<Rightarrow> string list" where
  "block_texts b = map line_text (case block_lines b of None \<Rightarrow> [] | Some ls \<Rightarrow> ls)"

section \<open>Content items\<close>

text \<open>
  A content item is a dictionary; a key that an item does not have is \<open>None\<close> here. The
  key \<open>bbox\<close> is there while a page is assembled and deleted before the page is returned.
\<close>

record content_item =
  item_type :: string
  item_bbox :: "rect option"
  item_section :: string
  item_sub_section :: "string option"
  item_text :: "string option"
  item_table_data :: "string list list option"
  item_description :: "string option"

text \<open>
  Exceptions of class \<open>Exception\<close>, raised by the PDF reader or by the table detector.
\<close>

datatype py_exception = Exception string

section \<open>Table Detector: \<open>extract_tables\<close>\<close>

text \<open>
  A candidate of Camelot: the shape of its data frame (rows, columns), the rows of the
  frame (\<open>table.df.values.tolist()\<close>; the cells of Camelot are strings, so \<open>str(cell)\<close>
  is the cell) and its bounding box \<open>table._bbox\<close>.
\<close>

record table =
  df_shape :: "nat \<times> nat"
  df_values :: "string list list"
  table_bbox :: rect

definition convert_bbox :: "real \<Rightarrow> rect \<Rightarrow> rect" where
  "convert_bbox page_height bb =
     (case bb of (x1, y1_camelot, x2, y2_camelot) \<Rightarrow>
        (x1, page_height - y2_camelot, x2, page_height - y1_camelot))"

definition cleaned_table_data :: "table \<Rightarrow> string list list" where
  "cleaned_table_data t =
     map (\<lambda>row. map strip (filter (\<lambda>cell. strip cell \<noteq> []) row)) (df_values t)"

definition final_table_data :: "table \<Rightarrow> string list list" where
  "final_table_data t = filter (\<lambda>row. row \<noteq> []) (cleaned_table_data t)"

fun tables_loop ::
  "tracker \<Rightarrow> real \<Rightarrow> table list \<Rightarrow> content_item list \<times> rect list \<Rightarrow>
   content_item list \<times> rect list" where
  "tables_loop tr page_height [] acc = acc"
| "tables_loop tr page_height (t # ts) (tables_data, ignore_bboxes) =
     (if snd (df_shape t) \<le> 1 then tables_loop tr page_height ts (tables_data, ignore_bboxes)
      else if fst (df_shape t) > 10 \<and> snd (df_shape t) < 3
        then tables_loop tr page_height ts (tables_data, ignore_bboxes)
      else
        (let bb = convert_bbox page_height (table_bbox t);
             ignore_bboxes' = ignore_bboxes @ [bb]
         in if final_table_data t \<noteq> []
            then tables_loop tr page_height ts
              (tables_data @
                 [\<lparr>item_type = ''table'', item_bbox = Some bb,
                   item_section = current_section tr,
                   item_sub_section = current_sub_section tr,
                   item_text = None,
                   item_table_data = Some (final_table_data t),
                   item_description = None\<rparr>],
               ignore_bboxes')
            else tables_loop tr page_height ts (tables_data, ignore_bboxes')))"

text \<open>
  The second argument is what \<open>camelot.read_pdf\<close> does for the page: it raises or it
  returns candidates. The \<open>try\<close> block catches every \<open>Exception\<close>.
\<close>

definition extract_tables ::
  "tracker \<Rightarrow> py_exception + table list \<Rightarrow> real \<Rightarrow> content_item list \<times> rect list" where
  "extract_tables tr read_pdf page_height =
     (case read_pdf of
        Inl e \<Rightarrow> ([], [])
      | Inr tables \<Rightarrow> tables_loop tr page_height tables ([], []))"

section \<open>Image Detector: \<open>extract_images\<close>\<close>

text \<open>
  An image of a page: the rectangle \<open>page.get_image_bbox(img)\<close> and its attribute
  \<open>is_empty\<close>, both as PyMuPDF reports them.
\<close>

record image =
  image_bbox :: rect
  image_is_empty :: bool

fun string_of_nat :: "nat \<Rightarrow> string" where
  "string_of_nat n =
     (if n < 10 then [char_of (48 + n)]
      else string_of_nat (n div 10) @ [char_of (48 + n mod 10)])"

fun images_loop ::
  "tracker \<Rightarrow> nat \<Rightarrow> image list \<Rightarrow> content_item list \<times> rect list \<Rightarrow>
   content_item list \<times> rect list" where
  "images_loop tr page_number [] acc = acc"
| "images_loop tr page_number (img # imgs) (images_data, ignore_bboxes) =
     (if image_is_empty img then images_loop tr page_number imgs (images_data, ignore_bboxes)
      else images_loop tr page_number imgs
        (images_data @
           [\<lparr>item_type = ''chart'', item_bbox = Some (image_bbox img),
             item_section = current_section tr,
             item_sub_section = current_sub_section tr,
             item_text = None,
             item_table_data = None,
             item_description =
               Some (''Chart or image found on page '' @ string_of_nat (page_number + 1))\<rparr>],
         ignore_bboxes @ [image_bbox img]))"

text \<open>
  The third argument is what enumerating the images of the page does: PyMuPDF raises, or
  there is a list of images.
\<close>

definition extract_images ::
  "tracker \<Rightarrow> nat \<Rightarrow> py_exception + image list \<Rightarrow>
   py_exception + content_item list \<times> rect list" where
  "extract_images tr page_number get_images =
     (case get_images of
        Inl e \<Rightarrow> Inl e
      | Inr imgs \<Rightarrow> Inr (images_loop tr page_number imgs ([], [])))"

section \<open>Region Reconciler and Section Tracker: \<open>extract_text_blocks\<close>\<close>

text \<open>
  \<open>fitz.Rect.intersects\<close> belongs to PyMuPDF, not to the repository: the functions below
  take it as the parameter \<open>isect\<close>, called as \<open>isect bbox block_rect\<close> for
  \<open>bbox.intersects(block_rect)\<close>.
\<close>

definition suppressed :: "(rect \<Rightarrow> rect \<Rightarrow> bool) \<Rightarrow> rect list \<Rightarrow> block \<Rightarrow> bool" where
  "suppressed isect ignore_bboxes b = list_ex (\<lambda>bbox. isect bbox (block_bbox b)) ignore_bboxes"

text \<open>The style of the first span of the first line, \<open>'p'\<close> when there is none.\<close>

definition main_style :: "block \<Rightarrow> string" where
  "main_style b =
     (case block_lines b of
        Some (l # _) \<Rightarrow>
          (case line_spans l of
             Some (sp # _) \<Rightarrow> get_text_style sp
           | _ \<Rightarrow> ''p'')
      | _ \<Rightarrow> ''p'')"

text \<open>
  The body of the loop over the blocks: the item the block adds to \<open>text_blocks\<close>, if
  any, and the tracker after the block.
\<close>

definition text_block_step ::
  "(rect \<Rightarrow> rect \<Rightarrow> bool) \<Rightarrow> rect list \<Rightarrow> tracker \<Rightarrow> block \<Rightarrow>
   content_item option \<times> tracker" where
  "text_block_step isect ignore_bboxes tr b =
     (if block_type b \<noteq> Some 0 then (None, tr)
      else if suppressed isect ignore_bboxes b then (None, tr)
      else
        (let cleaned_text = extract_clean_text b in
         if cleaned_text = [] then (None, tr)
         else
           (let style = main_style b;
                tr' = (if style = ''h1''
                       then tr\<lparr>current_section := cleaned_text, current_sub_section := None\<rparr>
                       else if style = ''h2''
                       then tr\<lparr>current_sub_section := Some cleaned_text\<rparr>
                       else tr)
            in (Some \<lparr>item_type = ''paragraph'', item_bbox = Some (block_bbox b),
                      item_section = current_section tr',
                      item_sub_section = current_sub_section tr',
                      item_text = Some cleaned_text,
                      item_table_data = None,
                      item_description = None\<rparr>, tr'))))"

fun text_blocks_loop ::
  "(rect \<Rightarrow> rect \<Rightarrow> bool) \<Rightarrow> rect list \<Rightarrow> block list \<Rightarrow> tracker \<Rightarrow> content_item list \<Rightarrow>
   content_item list \<times> tracker" where
  "text_blocks_loop isect ignore_bboxes [] tr text_blocks = (text_blocks, tr)"
| "text_blocks_loop isect ignore_bboxes (b # bs) tr text_blocks =
     (case text_block_step isect ignore_bboxes tr b of
        (None, tr') \<Rightarrow> text_blocks_loop isect ignore_bboxes bs tr' text_blocks
      | (Some content_item, tr') \<Rightarrow>
          text_blocks_loop isect ignore_bboxes bs tr' (text_blocks @ [content_item]))"

text \<open>
  The third argument is what \<open>page.get_text("dict").get("blocks", [])\<close> does: PyMuPDF
  raises, or there is the list of the blocks of the page.
\<close>

definition extract_text_blocks ::
  "(rect \<Rightarrow> rect \<Rightarrow> bool) \<Rightarrow> tracker \<Rightarrow> py_exception + block list \<Rightarrow> rect list \<Rightarrow>
   py_exception + content_item list \<times> tracker" where
  "extract_text_blocks isect tr get_text ignore_bboxes =
     (case get_text of
        Inl e \<Rightarrow> Inl e
      | Inr blocks \<Rightarrow> Inr (text_blocks_loop isect ignore_bboxes blocks tr []))"

section \<open>Page Orchestrator: \<open>parse_page\<close>\<close>

record page =
  page_height :: real
  read_pdf :: "py_exception + table list"
  get_images :: "py_exception + image list"
  get_text :: "py_exception + block list"

text \<open>The sort key \<open>item.get('bbox', (0, 0, 0, 0))[1]\<close>.\<close>

definition top_edge :: "content_item \<Rightarrow> real" where
  "top_edge item = (case item_bbox item of None \<Rightarrow> 0 | Some (x0, y0, x1, y1) \<Rightarrow> y0)"

definition del_bbox :: "content_item \<Rightarrow> content_item" where
  "del_bbox item = item\<lparr>item_bbox := None\<rparr>"

text \<open>
  \<open>sorted\<close> is a stable sort, and so is \<open>sort_key\<close>; the result of a stable sort is
  determined by its input and its key. The tracker is returned with the result, also when
  the page raises.
\<close>

definition parse_page ::
  "(rect \<Rightarrow> rect \<Rightarrow> bool) \<Rightarrow> tracker \<Rightarrow> nat \<Rightarrow> page \<Rightarrow>
   (py_exception + content_item list) \<times> tracker" where
  "parse_page isect tr page_num pg =
     (case extract_tables tr (read_pdf pg) (page_height pg) of
        (tables_data, table_bboxes) \<Rightarrow>
     (case extract_images tr page_num (get_images pg) of
        Inl e \<Rightarrow> (Inl e, tr)
      | Inr (images_data, image_bboxes) \<Rightarrow>
     (case extract_text_blocks isect tr (get_text pg) (table_bboxes @ image_bboxes) of
        Inl e \<Rightarrow> (Inl e, tr)
      | Inr (text_content, tr') \<Rightarrow>
          (let all_content = tables_data @ images_data @ text_content;
               sorted_content = sort_key top_edge all_content
           in (Inr (map del_bbox sorted_content), tr')))))"

section \<open>Document Orchestrator: \<open>parse\<close>\<close>

type_synonym document = "page list"

text \<open>What the file system and \<open>fitz.open\<close> answer for a path.\<close>

record environment =
  path_exists :: "string \<Rightarrow> bool"
  fitz_open :: "string \<Rightarrow> py_exception + document"

record output_page =
  page_number :: nat
  content :: "content_item list"

record output_data =
  file_path :: string
  total_pages :: nat
  pages :: "output_page list"

text \<open>The document handle: never opened, open, or closed by \<open>doc.close()\<close>.\<close>

datatype handle = Not_opened | Opened | Closed

text \<open>
  The loop \<open>for page_num in range(len(doc))\<close>. Reading a page that the document does not
  have raises.
\<close>

fun pages_loop ::
  "(rect \<Rightarrow> rect \<Rightarrow> bool) \<Rightarrow> document \<Rightarrow> nat list \<Rightarrow> tracker \<Rightarrow> output_page list \<Rightarrow>
   (py_exception + output_page list) \<times> tracker" where
  "pages_loop isect doc [] tr out = (Inr out, tr)"
| "pages_loop isect doc (page_num # rest) tr out =
     (if length doc \<le> page_num then (Inl (Exception ''page not in document''), tr)
      else
        (case parse_page isect tr page_num (doc ! page_num) of
           (Inl e, tr') \<Rightarrow> (Inl e, tr')
         | (Inr page_content, tr') \<Rightarrow>
             pages_loop isect doc rest tr'
               (out @ [\<lparr>page_number = page_num + 1, content = page_content\<rparr>])))"

text \<open>
  \<open>parse\<close> returns \<open>None\<close> or the output, or an exception of a page leaves it. The result
  comes with the tracker and with the state of the document handle at that moment.
\<close>

definition parse ::
  "(rect \<Rightarrow> rect \<Rightarrow> bool) \<Rightarrow> environment \<Rightarrow> tracker \<Rightarrow> string \<Rightarrow>
   (py_exception + output_data option) \<times> tracker \<times> handle" where
  "parse isect env tr pdf_path =
     (if \<not> path_exists env pdf_path then (Inr None, tr, Not_opened)
      else
        (case fitz_open env pdf_path of
           Inl e \<Rightarrow> (Inr None, tr, Not_opened)
         | Inr doc \<Rightarrow>
             (case pages_loop isect doc [0..<length doc] tr [] of
                (Inl e, tr') \<Rightarrow> (Inl e, tr', Opened)
              | (Inr out, tr') \<Rightarrow>
                  (Inr (Some \<lparr>file_path = pdf_path, total_pages = length doc, pages = out\<rparr>),
                   tr', Closed))))"

text \<open>\<open>parse_pdf\<close>: a new parser object, then \<open>parse\<close>.\<close>

definition parse_pdf ::
  "(rect \<Rightarrow> rect \<Rightarrow> bool) \<Rightarrow> environment \<Rightarrow> string \<Rightarrow>
   (py_exception + output_data option) \<times> tracker \<times> handle" where
  "parse_pdf isect env pdf_path = parse isect env init_tracker pdf_path"

text \<open>
  The tracker at the page boundaries of a parse started by \<open>parse_pdf\<close>: before page
  \<open>0\<close> it is the initial one, before page \<open>n + 1\<close> it is the one page \<open>n\<close> left.
\<close>

fun tracker_before :: "(rect \<Rightarrow> rect \<Rightarrow> bool) \<Rightarrow> document \<Rightarrow> nat \<Rightarrow> tracker" where
  "tracker_before isect doc 0 = init_tracker"
| "tracker_before isect doc (Suc n) =
     snd (parse_page isect (tracker_before isect doc n) n (doc ! n))"

text \<open>
  A rectangle test to run the examples with: two rectangles intersect when neither is empty
  and they share a region that is not empty.
\<close>

definition rect_is_empty :: "rect \<Rightarrow> bool" where
  "rect_is_empty r = (case r of (x0, y0, x1, y1) \<Rightarrow> x1 \<le> x0 \<or> y1 \<le> y0)"

definition rect_intersects :: "rect \<Rightarrow> rect \<Rightarrow> bool" where
  "rect_intersects r s =
     (case r of (a0, b0, a1, b1) \<Rightarrow> case s of (c0, d0, c1, d1) \<Rightarrow>
        \<not> rect_is_empty r \<and> \<not> rect_is_empty s \<and>
        \<not> rect_is_empty (max a0 c0, max b0 d0, min a1 c1, min b1 d1))"

text \<open>A text block of one line and one span, to state examples with.\<close>

definition one_span_block :: "real \<Rightarrow> string \<Rightarrow> string \<Rightarrow> rect \<Rightarrow> block" where
  "one_span_block sz fnt txt bb =
     \<lparr>block_type = Some 0, block_bbox = bb,
      block_lines = Some [\<lparr>line_spans = Some [\<lparr>span_size = sz, span_font = fnt,
                                                span_text = Some txt\<rparr>]\<rparr>]\<rparr>"

text \<open>
  A page to run examples on, of height 792: Camelot finds one table of three rows and
  three columns; there are two images, the second with an empty rectangle; the text has a
  large heading, a paragraph whose top edge is the top edge of the first image, a block
  inside the table and a closing paragraph.
\<close>

definition example_page :: page where
  "example_page =
     \<lparr>page_height = 792,
      read_pdf = Inr
        [\<lparr>df_shape = (3, 3),
          df_values = [[''Name'', ''Qty'', ''Price''], ['' '', '''', ''''],
                       [''Bolt'', '' 4 '', ''0.25'']],
          table_bbox = (50, 100, 300, 400)\<rparr>],
      get_images = Inr
        [\<lparr>image_bbox = (320, 100, 500, 200), image_is_empty = False\<rparr>,
         \<lparr>image_bbox = (0, 0, 0, 0), image_is_empty = True\<rparr>],
      get_text = Inr
        [one_span_block 18 ''Arial'' ''Intro'' (72, 50, 300, 70),
         one_span_block 10 ''Arial'' ''Body text'' (72, 100, 300, 120),
         one_span_block 10 ''Arial'' ''Bolt 4 0.25'' (60, 400, 200, 420),
         one_span_block 10 ''Arial'' ''Closing'' (72, 700, 300, 720)]\<rparr>"

text \<open>
  A second page without a heading, on which the table detector fails, and a page whose
  text PyMuPDF cannot read.
\<close>

definition example_page_plain :: page where
  "example_page_plain =
     \<lparr>page_height = 792,
      read_pdf = Inl (Exception ''no tables found in page''),
      get_images = Inr [],
      get_text = Inr [one_span_block 10 ''Arial'' ''Continued'' (72, 50, 300, 60)]\<rparr>"

definition example_page_broken :: page where
  "example_page_broken =
     \<lparr>page_height = 792,
      read_pdf = Inr [],
      get_images = Inr [],
      get_text = Inl (Exception ''cannot load page'')\<rparr>"

text \<open>A file system that has the one file \<open>report.pdf\<close>, which opens as the given document.\<close>

definition example_env :: "document \<Rightarrow> environment" where
  "example_env doc =
     \<lparr>path_exists = (\<lambda>p. p = ''report.pdf''), fitz_open = (\<lambda>p. Inr doc)\<rparr>"

text \<open>
  A page on which Camelot finds one candidate of three rows and three columns whose cells
  are all blank, with one text block inside the box of the candidate.
\<close>

definition example_page_blank :: page where
  "example_page_blank =
     \<lparr>page_height = 792,
      read_pdf = Inr
        [\<lparr>df_shape = (3, 3),
          df_values = [['' '', '''', ''''], ['''', '' '', ''''], ['''', '''', '' '']],
          table_bbox = (50, 100, 300, 400)\<rparr>],
      get_images = Inr [],
      get_text = Inr [one_span_block 10 ''Arial'' ''Notes on delivery'' (60, 400, 200, 420)]\<rparr>"

section \<open>Facts about \<open>strip\<close>\<close>

lemma isspace_newline: "isspace (CHR 0x0A)"
  by (simp add: isspace_def)

lemma dropWhile_same_length:
  assumes "length (dropWhile P s) = length s"
  shows "dropWhile P s = s"
proof -
  have "length (takeWhile P s) + length (dropWhile P s) = length s"
    by (metis length_append takeWhile_dropWhile_id)
  with assms have "takeWhile P s = []" by simp
  then show ?thesis by (metis append_Nil takeWhile_dropWhile_id)
qed

lemma strip_fixed_iff:
  "strip s = s \<longleftrightarrow> dropWhile isspace s = s \<and> dropWhile isspace (rev s) = rev s"
proof
  assume fixed: "strip s = s"
  have "length s = length (strip s)" using fixed by simp
  also have "\<dots> = length (dropWhile isspace (rev (dropWhile isspace s)))"
    by (simp add: strip_def)
  also have "\<dots> \<le> length (rev (dropWhile isspace s))" by (rule length_dropWhile_le)
  finally have "length s \<le> length (dropWhile isspace s)" by simp
  then have "length (dropWhile isspace s) = length s"
    using length_dropWhile_le [of isspace s] by simp
  then have lead: "dropWhile isspace s = s" by (rule dropWhile_same_length)
  with fixed have "rev (dropWhile isspace (rev s)) = s" by (simp add: strip_def)
  then have "dropWhile isspace (rev s) = rev s" by (metis rev_rev_ident)
  with lead show "dropWhile isspace s = s \<and> dropWhile isspace (rev s) = rev s" by simp
next
  assume "dropWhile isspace s = s \<and> dropWhile isspace (rev s) = rev s"
  then show "strip s = s" by (simp add: strip_def)
qed

lemma strip_strip: "strip (strip s) = strip s"
proof -
  define u where "u = dropWhile isspace s"
  define t where "t = dropWhile isspace (rev u)"
  have st: "strip s = rev t" by (simp add: strip_def t_def u_def)
  have trail: "dropWhile isspace t = t" by (simp add: t_def)
  have lead: "dropWhile isspace (rev t) = rev t"
  proof (cases "t = []")
    case True then show ?thesis by simp
  next
    case False
    have "rev u = takeWhile isspace (rev u) @ t" by (simp add: t_def)
    then have "u = rev t @ rev (takeWhile isspace (rev u))"
      by (metis rev_append rev_rev_ident)
    then have hd_eq: "hd u = hd (rev t)" and "u \<noteq> []" using False
      by (metis hd_append2 rev_is_Nil_conv, metis append_is_Nil_conv rev_is_Nil_conv)
    have "dropWhile isspace u = u" by (simp add: u_def)
    then have "\<not> isspace (hd u)" using \<open>u \<noteq> []\<close> by (simp add: dropWhile_eq_self_iff)
    then show ?thesis using hd_eq by (simp add: dropWhile_eq_self_iff)
  qed
  show ?thesis unfolding st using lead trail by (simp add: strip_fixed_iff)
qed

lemma strip_append_newline:
  assumes "strip s = s"
  shows "strip (s @ [CHR 0x0A]) = s"
proof (cases s)
  case Nil
  then show ?thesis by (simp add: strip_def isspace_newline)
next
  case (Cons c cs)
  from assms have lead: "dropWhile isspace s = s" and trail: "dropWhile isspace (rev s) = rev s"
    by (simp_all add: strip_fixed_iff)
  from lead have "s = [] \<or> \<not> isspace (hd s)" by (simp only: dropWhile_eq_self_iff)
  with Cons have "\<not> isspace c" by simp
  then have "dropWhile isspace (s @ [CHR 0x0A]) = s @ [CHR 0x0A]" using Cons by simp
  then show ?thesis using trail by (simp add: strip_def isspace_newline)
qed

section \<open>The Style Classifier\<close>

lemma py_round_nearest: "\<bar>of_int (py_round x) - x\<bar> \<le> 1 / 2"
proof -
  have "of_int \<lfloor>x\<rfloor> \<le> x" and "x < of_int \<lfloor>x\<rfloor> + 1" by linarith+
  then show ?thesis by (auto simp: py_round_def Let_def)
qed

lemma is_bold_iff:
  "is_bold sp \<longleftrightarrow> (\<exists>pre suf. map lower_char (span_font sp) = pre @ ''bold'' @ suf)"
  by (simp add: is_bold_def lower_def sublist_def)

text \<open>
  C4. With \<open>r\<close> the font size of the span rounded to the nearest integer (\<open>r\<close> is at most
  one half away from the size): \<open>r > 15\<close> gives \<open>h1\<close> (heading-major) whatever the font
  name is; otherwise \<open>r \<ge> 12\<close> with a font name that contains \<open>bold\<close>, in any mix of
  upper and lower case, gives \<open>h2\<close> (heading-minor); otherwise \<open>r > 12\<close> gives \<open>h2\<close>
  whether bold or not; otherwise the style is \<open>p\<close> (paragraph), in particular for
  \<open>r = 12\<close> and a font that is not bold.
\<close>

theorem get_text_style_rules:
  "(15 < py_round (span_size sp) \<longrightarrow> get_text_style sp = ''h1'')
   \<and> (py_round (span_size sp) \<le> 15 \<and> 12 \<le> py_round (span_size sp) \<and> is_bold sp
        \<longrightarrow> get_text_style sp = ''h2'')
   \<and> (py_round (span_size sp) \<le> 15 \<and> 12 < py_round (span_size sp)
        \<longrightarrow> get_text_style sp = ''h2'')
   \<and> (py_round (span_size sp) < 12 \<or> (py_round (span_size sp) = 12 \<and> \<not> is_bold sp)
        \<longrightarrow> get_text_style sp = ''p'')
   \<and> (py_round (span_size sp) = 12 \<and> \<not> is_bold sp \<longrightarrow> get_text_style sp = ''p'')
   \<and> \<bar>of_int (py_round (span_size sp)) - span_size sp\<bar> \<le> 1 / 2
   \<and> (is_bold sp \<longleftrightarrow> (\<exists>pre suf. map lower_char (span_font sp) = pre @ ''bold'' @ suf))"
  using py_round_nearest [of "span_size sp"] is_bold_iff [of sp]
  by (simp add: get_text_style_def Let_def)

theorem get_text_style_rules_witness:
  "15 < py_round (31 / 2)
   \<and> get_text_style \<lparr>span_size = 31 / 2, span_font = ''Times-Roman'', span_text = None\<rparr> = ''h1''
   \<and> py_round 12 = 12
   \<and> get_text_style \<lparr>span_size = 12, span_font = ''Arial-BoldMT'', span_text = None\<rparr> = ''h2''
   \<and> py_round (27 / 2) = 14
   \<and> get_text_style \<lparr>span_size = 27 / 2, span_font = ''Arial'', span_text = None\<rparr> = ''h2''
   \<and> get_text_style \<lparr>span_size = 12, span_font = ''Arial'', span_text = None\<rparr> = ''p''
   \<and> py_round (25 / 2) = 12
   \<and> get_text_style \<lparr>span_size = 25 / 2, span_font = ''Arial'', span_text = None\<rparr> = ''p''"
proof -
  have r1: "py_round (31 / 2) = 16" and r2: "py_round 12 = 12"
    and r3: "py_round (27 / 2) = 14" and r4: "py_round (25 / 2) = 12"
    by (simp_all add: py_round_def Let_def)
  have b1: "is_bold \<lparr>span_size = 12, span_font = ''Arial-BoldMT'', span_text = None\<rparr>"
    by code_simp
  have b2: "\<not> is_bold \<lparr>span_size = 12, span_font = ''Arial'', span_text = None\<rparr>"
    and b3: "\<not> is_bold \<lparr>span_size = 25 / 2, span_font = ''Arial'', span_text = None\<rparr>"
    by code_simp+
  show ?thesis
    using get_text_style_rules [of "\<lparr>span_size = 31 / 2, span_font = ''Times-Roman'', span_text = None\<rparr>"]
      get_text_style_rules [of "\<lparr>span_size = 12, span_font = ''Arial-BoldMT'', span_text = None\<rparr>"]
      get_text_style_rules [of "\<lparr>span_size = 27 / 2, span_font = ''Arial'', span_text = None\<rparr>"]
      get_text_style_rules [of "\<lparr>span_size = 12, span_font = ''Arial'', span_text = None\<rparr>"]
      get_text_style_rules [of "\<lparr>span_size = 25 / 2, span_font = ''Arial'', span_text = None\<rparr>"]
      b1 b2 b3
    by (simp add: r1 r2 r3 r4)
qed

section \<open>The Text Block Normalizer\<close>

lemma clean_loop_stripped:
  "\<forall>l \<in> set ls. strip (line_text l) = line_text l \<Longrightarrow>
   clean_loop acc ls = acc @ concat (map (\<lambda>l. line_text l @ [CHR 0x0A]) ls)"
  by (induction ls arbitrary: acc) simp_all

lemma concat_newline_join:
  "xs \<noteq> [] \<Longrightarrow> concat (map (\<lambda>x. x @ [CHR 0x0A]) xs) = join_newline xs @ [CHR 0x0A]"
  by (induction xs rule: join_newline.induct) simp_all

lemma extract_clean_text_fixed:
  assumes lines_ok: "\<forall>t \<in> set (block_texts b). strip t = t"
    and whole_ok: "strip (join_newline (block_texts b)) = join_newline (block_texts b)"
  shows "extract_clean_text b = join_newline (block_texts b)"
proof -
  define ls where "ls = (case block_lines b of None \<Rightarrow> [] | Some ls \<Rightarrow> ls)"
  have texts: "block_texts b = map line_text ls" by (simp add: block_texts_def ls_def)
  have "\<forall>l \<in> set ls. strip (line_text l) = line_text l" using lines_ok texts by simp
  then have loop: "clean_loop [] ls = concat (map (\<lambda>t. t @ [CHR 0x0A]) (map line_text ls))"
    by (simp add: clean_loop_stripped comp_def)
  show ?thesis
  proof (cases "ls = []")
    case True
    then show ?thesis using texts by (simp add: extract_clean_text_def ls_def [symmetric] strip_def)
  next
    case False
    then have "clean_loop [] ls = join_newline (map line_text ls) @ [CHR 0x0A]"
      using loop concat_newline_join [of "map line_text ls"] by simp
    then show ?thesis using whole_ok texts
      by (simp add: extract_clean_text_def ls_def [symmetric] strip_append_newline)
  qed
qed

lemma extract_clean_text_stripped: "strip (extract_clean_text b) = extract_clean_text b"
  by (simp add: extract_clean_text_def strip_strip)

text \<open>
  C9. Normalization is idempotent. A block whose text is already normalized (no line of
  it has leading or trailing whitespace, the lines are joined by single newlines, and the
  joined text has no leading or trailing whitespace) is returned as that text, unchanged.
  So the text the normalizer returns for any block \<open>b\<close>, put into a block of one line
  and one span, is returned unchanged by a second normalization.
\<close>

theorem extract_clean_text_idempotent:
  "((\<forall>t \<in> set (block_texts b). strip t = t)
      \<and> strip (join_newline (block_texts b)) = join_newline (block_texts b)
      \<longrightarrow> extract_clean_text b = join_newline (block_texts b))
   \<and> extract_clean_text
        \<lparr>block_type = ty, block_bbox = bb,
         block_lines = Some [\<lparr>line_spans = Some [\<lparr>span_size = sz, span_font = fn,
                                   span_text = Some (extract_clean_text b)\<rparr>]\<rparr>]\<rparr>
      = extract_clean_text b"
proof
  show "(\<forall>t \<in> set (block_texts b). strip t = t)
      \<and> strip (join_newline (block_texts b)) = join_newline (block_texts b)
      \<longrightarrow> extract_clean_text b = join_newline (block_texts b)"
    using extract_clean_text_fixed by blast
next
  let ?b' = "\<lparr>block_type = ty, block_bbox = bb,
         block_lines = Some [\<lparr>line_spans = Some [\<lparr>span_size = sz, span_font = fn,
                                   span_text = Some (extract_clean_text b)\<rparr>]\<rparr>]\<rparr>"
  have texts: "block_texts ?b' = [extract_clean_text b]"
    by (simp add: block_texts_def line_text_def)
  have "extract_clean_text ?b' = join_newline (block_texts ?b')"
    by (rule extract_clean_text_fixed) (simp_all add: texts extract_clean_text_stripped)
  then show "extract_clean_text ?b' = extract_clean_text b" by (simp add: texts)
qed

theorem extract_clean_text_idempotent_witness:
  "strip ''Annual report'' = ''Annual report''
   \<and> strip ''2024 edition'' = ''2024 edition''
   \<and> strip ''Annual report\<newline>2024 edition'' = ''Annual report\<newline>2024 edition''
   \<and> extract_clean_text
       \<lparr>block_type = Some 0, block_bbox = (72, 72, 300, 100),
        block_lines = Some
          [\<lparr>line_spans = Some [\<lparr>span_size = 11, span_font = ''Arial'', span_text = Some ''Annual ''\<rparr>,
                               \<lparr>span_size = 11, span_font = ''Arial'', span_text = Some ''report''\<rparr>]\<rparr>,
           \<lparr>line_spans = Some [\<lparr>span_size = 11, span_font = ''Arial'', span_text = Some ''2024 edition''\<rparr>]\<rparr>]\<rparr>
     = ''Annual report\<newline>2024 edition''"
proof -
  let ?b = "\<lparr>block_type = Some 0, block_bbox = (72, 72, 300, 100),
        block_lines = Some
          [\<lparr>line_spans = Some [\<lparr>span_size = 11, span_font = ''Arial'', span_text = Some ''Annual ''\<rparr>,
                               \<lparr>span_size = 11, span_font = ''Arial'', span_text = Some ''report''\<rparr>]\<rparr>,
           \<lparr>line_spans = Some [\<lparr>span_size = 11, span_font = ''Arial'', span_text = Some ''2024 edition''\<rparr>]\<rparr>]\<rparr>"
  have texts: "block_texts ?b = [''Annual report'', ''2024 edition'']"
    by (simp add: block_texts_def line_text_def)
  have s1: "strip ''Annual report'' = ''Annual report''"
    and s2: "strip ''2024 edition'' = ''2024 edition''"
    and s3: "strip ''Annual report\<newline>2024 edition'' = ''Annual report\<newline>2024 edition''"
    by code_simp+
  show ?thesis
    using extract_clean_text_idempotent [of ?b] by (simp add: texts s1 s2 s3)
qed

section \<open>The Table Detector\<close>

lemma tables_loop_result:
  "tables_loop tr h ts (td, ig) =
     (td @ map (\<lambda>t. \<lparr>item_type = ''table'', item_bbox = Some (convert_bbox h (table_bbox t)),
                      item_section = current_section tr,
                      item_sub_section = current_sub_section tr,
                      item_text = None,
                      item_table_data = Some (final_table_data t),
                      item_description = None\<rparr>)
            (filter (\<lambda>t. \<not> snd (df_shape t) \<le> 1
                          \<and> \<not> (10 < fst (df_shape t) \<and> snd (df_shape t) < 3)
                          \<and> final_table_data t \<noteq> []) ts),
      ig @ map (\<lambda>t. convert_bbox h (table_bbox t))
             (filter (\<lambda>t. \<not> snd (df_shape t) \<le> 1
                           \<and> \<not> (10 < fst (df_shape t) \<and> snd (df_shape t) < 3)) ts))"
  by (induction ts arbitrary: td ig) (simp_all add: Let_def)

text \<open>
  The suppression boxes of the Table Detector: the converted box of every candidate that
  passes the two shape tests, also of one whose rows all vanish under cleaning.
\<close>

lemma extract_tables_bboxes:
  "snd (extract_tables tr (Inr ts) h) =
     map (\<lambda>t. convert_bbox h (table_bbox t))
       (filter (\<lambda>t. \<not> snd (df_shape t) \<le> 1
                     \<and> \<not> (10 < fst (df_shape t) \<and> snd (df_shape t) < 3)) ts)"
  by (simp add: extract_tables_def tables_loop_result)

text \<open>
  The table items of the Table Detector: in order, the items of exactly the candidates
  that have more than one column, that do not have more than ten rows together with fewer
  than three columns, and of which a row survives cell cleaning. A candidate that fails a
  shape test leaves neither item nor box. A candidate that passes the shape tests and of
  which no row survives leaves no item, but its box.
\<close>

lemma extract_tables_items:
  "fst (extract_tables tr (Inr ts) h) =
     map (\<lambda>t. \<lparr>item_type = ''table'', item_bbox = Some (convert_bbox h (table_bbox t)),
                item_section = current_section tr,
                item_sub_section = current_sub_section tr,
                item_text = None,
                item_table_data = Some (final_table_data t),
                item_description = None\<rparr>)
       (filter (\<lambda>t. \<not> snd (df_shape t) \<le> 1
                     \<and> \<not> (10 < fst (df_shape t) \<and> snd (df_shape t) < 3)
                     \<and> final_table_data t \<noteq> []) ts)"
  by (simp add: extract_tables_def tables_loop_result)

lemma extract_tables_shape_discard:
  "snd (df_shape t) \<le> 1 \<or> (10 < fst (df_shape t) \<and> snd (df_shape t) < 3) \<Longrightarrow>
   extract_tables tr (Inr [t]) h = ([], [])"
  by (auto simp: extract_tables_def)

lemma extract_tables_blank:
  "\<not> snd (df_shape t) \<le> 1 \<Longrightarrow> \<not> (10 < fst (df_shape t) \<and> snd (df_shape t) < 3) \<Longrightarrow>
   final_table_data t = [] \<Longrightarrow>
   extract_tables tr (Inr [t]) h = ([], [convert_bbox h (table_bbox t)])"
  by (simp add: extract_tables_def Let_def)

lemma extract_tables_retained:
  "\<not> snd (df_shape t) \<le> 1 \<Longrightarrow> \<not> (10 < fst (df_shape t) \<and> snd (df_shape t) < 3) \<Longrightarrow>
   final_table_data t \<noteq> [] \<Longrightarrow>
   extract_tables tr (Inr [t]) h =
     ([\<lparr>item_type = ''table'', item_bbox = Some (convert_bbox h (table_bbox t)),
        item_section = current_section tr,
        item_sub_section = current_sub_section tr,
        item_text = None,
        item_table_data = Some (final_table_data t),
        item_description = None\<rparr>],
      [convert_bbox h (table_bbox t)])"
  by (simp add: extract_tables_def Let_def)

text \<open>
  C5, at a candidate of three rows and three columns whose cells are all blank. No row of
  it survives cleaning and it gives no table item, but it is not discarded: its converted
  box is returned among the suppression boxes, as for a retained table, and the text block
  that lies under it is lost from the page. Without the candidate the page has that block
  as a paragraph.
\<close>

theorem extract_tables_keeps_blank_box:
  "extract_tables init_tracker (read_pdf example_page_blank) (page_height example_page_blank) =
     ([], [(50, 392, 300, 692)])
   \<and> parse_page rect_intersects init_tracker 0 example_page_blank = (Inr [], init_tracker)
   \<and> parse_page rect_intersects init_tracker 0 (example_page_blank\<lparr>read_pdf := Inr []\<rparr>) =
       (Inr [\<lparr>item_type = ''paragraph'', item_bbox = None, item_section = ''Default'',
               item_sub_section = None, item_text = Some ''Notes on delivery'',
               item_table_data = None, item_description = None\<rparr>],
        init_tracker)"
  by code_simp

text \<open>
  C6. When the table collaborator raises for a page, the Table Detector returns no table
  item and no bounding box, and nothing of the failure reaches its caller: the page is
  parsed as a page on which the collaborator found no candidate.
\<close>

theorem extract_tables_swallows:
  "extract_tables tr (Inl e) h = ([], [])
   \<and> parse_page isect tr n (pg\<lparr>read_pdf := Inl e\<rparr>) = parse_page isect tr n (pg\<lparr>read_pdf := Inr []\<rparr>)"
  by (simp add: extract_tables_def parse_page_def split: sum.split prod.split)

theorem extract_tables_swallows_witness:
  "extract_tables init_tracker (Inl (Exception ''no tables found in page'')) 792 = ([], [])
   \<and> parse_page rect_intersects init_tracker 0
        \<lparr>page_height = 792, read_pdf = Inl (Exception ''no tables found in page''),
         get_images = Inr [],
         get_text = Inr [one_span_block 10 ''Arial'' ''Body text'' (72, 100, 300, 120)]\<rparr>
      = (Inr [\<lparr>item_type = ''paragraph'', item_bbox = None, item_section = ''Default'',
               item_sub_section = None, item_text = Some ''Body text'',
               item_table_data = None, item_description = None\<rparr>],
         init_tracker)"
proof -
  have page: "parse_page rect_intersects init_tracker 0
        \<lparr>page_height = 792, read_pdf = Inr [],
         get_images = Inr [],
         get_text = Inr [one_span_block 10 ''Arial'' ''Body text'' (72, 100, 300, 120)]\<rparr>
      = (Inr [\<lparr>item_type = ''paragraph'', item_bbox = None, item_section = ''Default'',
               item_sub_section = None, item_text = Some ''Body text'',
               item_table_data = None, item_description = None\<rparr>],
         init_tracker)"
    by code_simp
  show ?thesis
    using extract_tables_swallows [of init_tracker "Exception ''no tables found in page''" 792
        rect_intersects 0
        "\<lparr>page_height = 792, read_pdf = Inr [], get_images = Inr [],
          get_text = Inr [one_span_block 10 ''Arial'' ''Body text'' (72, 100, 300, 120)]\<rparr>"]
    by (simp add: page)
qed

section \<open>The Region Reconciler and the Section Tracker\<close>

lemma suppressed_iff:
  "suppressed isect ig b \<longleftrightarrow> (\<exists>bbox \<in> set ig. isect bbox (block_bbox b))"
  by (simp add: suppressed_def list_ex_iff)

lemma text_block_step_skip:
  "block_type b \<noteq> Some 0 \<or> suppressed isect ig b \<or> extract_clean_text b = [] \<Longrightarrow>
   text_block_step isect ig tr b = (None, tr)"
  by (auto simp: text_block_step_def)

lemma text_block_step_emit:
  assumes "block_type b = Some 0" and "\<not> suppressed isect ig b"
    and "extract_clean_text b \<noteq> []"
  shows "text_block_step isect ig tr b =
    (let tr' = (if main_style b = ''h1''
                then \<lparr>current_section = extract_clean_text b, current_sub_section = None\<rparr>
                else if main_style b = ''h2''
                then \<lparr>current_section = current_section tr,
                      current_sub_section = Some (extract_clean_text b)\<rparr>
                else tr)
     in (Some \<lparr>item_type = ''paragraph'', item_bbox = Some (block_bbox b),
               item_section = current_section tr',
               item_sub_section = current_sub_section tr',
               item_text = Some (extract_clean_text b),
               item_table_data = None,
               item_description = None\<rparr>, tr'))"
  using assms by (simp add: text_block_step_def Let_def)

lemma text_block_step_item:
  assumes "text_block_step isect ig tr b = (Some it, tr')"
  shows "block_type b = Some 0 \<and> \<not> suppressed isect ig b \<and> extract_clean_text b \<noteq> []
    \<and> item_type it = ''paragraph'' \<and> item_bbox it = Some (block_bbox b)
    \<and> item_text it = Some (extract_clean_text b)
    \<and> item_section it = current_section tr' \<and> item_sub_section it = current_sub_section tr'"
  using assms by (auto simp: text_block_step_def Let_def split: if_splits)

lemma text_blocks_loop_acc:
  "text_blocks_loop isect ig bs tr acc =
     (acc @ fst (text_blocks_loop isect ig bs tr []), snd (text_blocks_loop isect ig bs tr []))"
proof (induction bs arbitrary: tr acc)
  case Nil
  show ?case by simp
next
  case (Cons b bs)
  obtain r tr' where step: "text_block_step isect ig tr b = (r, tr')"
    by (cases "text_block_step isect ig tr b")
  show ?case
  proof (cases r)
    case None
    with step show ?thesis using Cons.IH [of tr' acc] by simp
  next
    case (Some it)
    with step show ?thesis
      using Cons.IH [of tr' "acc @ [it]"] Cons.IH [of tr' "[it]"] by simp
  qed
qed

lemma text_blocks_loop_append:
  "text_blocks_loop isect ig (xs @ ys) tr acc =
     (case text_blocks_loop isect ig xs tr acc of
        (acc', tr') \<Rightarrow> text_blocks_loop isect ig ys tr' acc')"
  by (induction xs arbitrary: tr acc) (simp_all split: prod.split option.split)

lemma text_blocks_loop_Cons_skip:
  "block_type b \<noteq> Some 0 \<or> suppressed isect ig b \<or> extract_clean_text b = [] \<Longrightarrow>
   text_blocks_loop isect ig (b # bs) tr acc = text_blocks_loop isect ig bs tr acc"
  by (simp add: text_block_step_skip)

lemma text_blocks_loop_items:
  "map (\<lambda>it. (item_bbox it, item_text it)) (fst (text_blocks_loop isect ig bs tr [])) =
   map (\<lambda>b. (Some (block_bbox b), Some (extract_clean_text b)))
     (filter (\<lambda>b. block_type b = Some 0 \<and> \<not> suppressed isect ig b
                   \<and> extract_clean_text b \<noteq> []) bs)"
proof (induction bs arbitrary: tr)
  case Nil
  show ?case by simp
next
  case (Cons b bs)
  obtain r tr' where step: "text_block_step isect ig tr b = (r, tr')"
    by (cases "text_block_step isect ig tr b")
  show ?case
  proof (cases r)
    case None
    have "\<not> (block_type b = Some 0 \<and> \<not> suppressed isect ig b \<and> extract_clean_text b \<noteq> [])"
    proof
      assume "block_type b = Some 0 \<and> \<not> suppressed isect ig b \<and> extract_clean_text b \<noteq> []"
      then have "fst (text_block_step isect ig tr b) \<noteq> None"
        by (simp add: text_block_step_emit Let_def)
      with step None show False by simp
    qed
    with step None show ?thesis using Cons.IH [of tr'] by simp
  next
    case (Some it)
    with step have facts: "block_type b = Some 0 \<and> \<not> suppressed isect ig b
        \<and> extract_clean_text b \<noteq> [] \<and> item_bbox it = Some (block_bbox b)
        \<and> item_text it = Some (extract_clean_text b)"
      using text_block_step_item [of isect ig tr b it tr'] by simp
    have "text_blocks_loop isect ig (b # bs) tr [] = text_blocks_loop isect ig bs tr' [it]"
      using step Some by simp
    then have "fst (text_blocks_loop isect ig (b # bs) tr []) =
        it # fst (text_blocks_loop isect ig bs tr' [])"
      using text_blocks_loop_acc [of isect ig bs tr' "[it]"] by simp
    with facts show ?thesis using Cons.IH [of tr'] by simp
  qed
qed

lemma text_blocks_loop_paragraphs:
  "it \<in> set (fst (text_blocks_loop isect ig bs tr [])) \<Longrightarrow> item_type it = ''paragraph''"
proof (induction bs arbitrary: tr)
  case Nil
  then show ?case by simp
next
  case (Cons b bs)
  obtain r tr' where step: "text_block_step isect ig tr b = (r, tr')"
    by (cases "text_block_step isect ig tr b")
  show ?case
  proof (cases r)
    case None
    with step Cons.prems show ?thesis using Cons.IH [of tr'] by simp
  next
    case (Some new)
    have "text_blocks_loop isect ig (b # bs) tr [] = text_blocks_loop isect ig bs tr' [new]"
      using step Some by simp
    then have "fst (text_blocks_loop isect ig (b # bs) tr []) =
        new # fst (text_blocks_loop isect ig bs tr' [])"
      using text_blocks_loop_acc [of isect ig bs tr' "[new]"] by simp
    with Cons.prems have "it = new \<or> it \<in> set (fst (text_blocks_loop isect ig bs tr' []))"
      by simp
    then show ?thesis
    proof
      assume "it = new"
      then show ?thesis
        using step Some text_block_step_item [of isect ig tr b new tr'] by simp
    next
      assume "it \<in> set (fst (text_blocks_loop isect ig bs tr' []))"
      then show ?thesis by (rule Cons.IH)
    qed
  qed
qed

lemma one_span_block_sel:
  "block_type (one_span_block sz fnt txt bb) = Some 0"
  "block_bbox (one_span_block sz fnt txt bb) = bb"
  by (simp_all add: one_span_block_def)

text \<open>
  C1. Of the text blocks of a page (the blocks of type 0), one whose bounding box
  intersects a suppression box leaves no item in the paragraph output, and one that
  intersects no suppression box and whose normalized text is not empty leaves an item, a
  paragraph with its box and its normalized text. The boxes and texts of the output are, in
  order, those of exactly the text blocks that intersect no suppression box and have a
  normalized text that is not empty.
\<close>

theorem extract_text_blocks_filter:
  "\<exists>items tr'.
     extract_text_blocks isect tr (Inr blocks) ig = Inr (items, tr')
     \<and> (\<forall>b \<in> set blocks.
          block_type b = Some 0 \<and> (\<exists>bbox \<in> set ig. isect bbox (block_bbox b))
          \<longrightarrow> (\<forall>it \<in> set items. item_bbox it \<noteq> Some (block_bbox b)))
     \<and> (\<forall>b \<in> set blocks.
          block_type b = Some 0 \<and> \<not> (\<exists>bbox \<in> set ig. isect bbox (block_bbox b))
            \<and> extract_clean_text b \<noteq> []
          \<longrightarrow> (\<exists>it \<in> set items. item_type it = ''paragraph''
                 \<and> item_bbox it = Some (block_bbox b)
                 \<and> item_text it = Some (extract_clean_text b)))
     \<and> map (\<lambda>it. (item_bbox it, item_text it)) items =
         map (\<lambda>b. (Some (block_bbox b), Some (extract_clean_text b)))
           (filter (\<lambda>b. block_type b = Some 0
                         \<and> \<not> (\<exists>bbox \<in> set ig. isect bbox (block_bbox b))
                         \<and> extract_clean_text b \<noteq> []) blocks)"
proof -
  define items where "items = fst (text_blocks_loop isect ig blocks tr [])"
  define tr' where "tr' = snd (text_blocks_loop isect ig blocks tr [])"
  let ?kept = "\<lambda>b. block_type b = Some 0 \<and> \<not> (\<exists>bbox \<in> set ig. isect bbox (block_bbox b))
                         \<and> extract_clean_text b \<noteq> []"
  have res: "extract_text_blocks isect tr (Inr blocks) ig = Inr (items, tr')"
    by (simp add: extract_text_blocks_def items_def tr'_def)
  have shape: "map (\<lambda>it. (item_bbox it, item_text it)) items =
      map (\<lambda>b. (Some (block_bbox b), Some (extract_clean_text b))) (filter ?kept blocks)"
    unfolding items_def using text_blocks_loop_items [of isect ig blocks tr]
    by (simp add: suppressed_iff)
  have excl: "\<forall>b \<in> set blocks.
      block_type b = Some 0 \<and> (\<exists>bbox \<in> set ig. isect bbox (block_bbox b))
      \<longrightarrow> (\<forall>it \<in> set items. item_bbox it \<noteq> Some (block_bbox b))"
  proof (intro ballI impI)
    fix b it
    assume hit: "block_type b = Some 0 \<and> (\<exists>bbox \<in> set ig. isect bbox (block_bbox b))"
      and mem: "it \<in> set items"
    show "item_bbox it \<noteq> Some (block_bbox b)"
    proof
      assume same: "item_bbox it = Some (block_bbox b)"
      from mem have "(item_bbox it, item_text it) \<in> set (map (\<lambda>it. (item_bbox it, item_text it)) items)"
        by force
      then have "(item_bbox it, item_text it) \<in>
          set (map (\<lambda>b. (Some (block_bbox b), Some (extract_clean_text b))) (filter ?kept blocks))"
        by (simp only: shape)
      then obtain b' where "?kept b'" and "item_bbox it = Some (block_bbox b')" by auto
      with same hit show False by simp
    qed
  qed
  have incl: "\<forall>b \<in> set blocks. ?kept b
      \<longrightarrow> (\<exists>it \<in> set items. item_type it = ''paragraph''
             \<and> item_bbox it = Some (block_bbox b)
             \<and> item_text it = Some (extract_clean_text b))"
  proof (intro ballI impI)
    fix b
    assume mem: "b \<in> set blocks" and kept: "?kept b"
    then have "(Some (block_bbox b), Some (extract_clean_text b)) \<in>
        set (map (\<lambda>b. (Some (block_bbox b), Some (extract_clean_text b))) (filter ?kept blocks))"
      by force
    then have "(Some (block_bbox b), Some (extract_clean_text b)) \<in>
        set (map (\<lambda>it. (item_bbox it, item_text it)) items)"
      by (simp only: shape)
    then obtain it where it: "it \<in> set items" "item_bbox it = Some (block_bbox b)"
        "item_text it = Some (extract_clean_text b)"
      by auto
    from it(1) have "item_type it = ''paragraph''"
      unfolding items_def by (rule text_blocks_loop_paragraphs)
    with it show "\<exists>it \<in> set items. item_type it = ''paragraph''
             \<and> item_bbox it = Some (block_bbox b)
             \<and> item_text it = Some (extract_clean_text b)"
      by blast
  qed
  from res excl incl shape show ?thesis by blast
qed

theorem extract_text_blocks_filter_witness:
  "rect_intersects (50, 392, 300, 692) (60, 400, 200, 420)
   \<and> \<not> rect_intersects (50, 392, 300, 692) (72, 100, 300, 120)
   \<and> (\<exists>items tr'.
        extract_text_blocks rect_intersects init_tracker
          (Inr [one_span_block 10 ''Arial'' ''Table 1: parts'' (60, 400, 200, 420),
                one_span_block 10 ''Arial'' ''Body text'' (72, 100, 300, 120)])
          [(50, 392, 300, 692)] = Inr (items, tr')
        \<and> map (\<lambda>it. (item_bbox it, item_text it)) items =
            [(Some (72, 100, 300, 120), Some ''Body text'')])"
proof -
  let ?inside = "one_span_block 10 ''Arial'' ''Table 1: parts'' (60, 400, 200, 420)"
  let ?outside = "one_span_block 10 ''Arial'' ''Body text'' (72, 100, 300, 120)"
  have hit: "rect_intersects (50, 392, 300, 692) (60, 400, 200, 420)"
    by (simp add: rect_intersects_def rect_is_empty_def)
  have miss: "\<not> rect_intersects (50, 392, 300, 692) (72, 100, 300, 120)"
    by (simp add: rect_intersects_def rect_is_empty_def)
  have cleaned: "extract_clean_text ?outside = ''Body text''"
    by code_simp
  from extract_text_blocks_filter
    [of rect_intersects init_tracker "[?inside, ?outside]" "[(50, 392, 300, 692)]"]
  obtain items tr' where
    res: "extract_text_blocks rect_intersects init_tracker (Inr [?inside, ?outside])
            [(50, 392, 300, 692)] = Inr (items, tr')"
    and shape: "map (\<lambda>it. (item_bbox it, item_text it)) items =
         map (\<lambda>b. (Some (block_bbox b), Some (extract_clean_text b)))
           (filter (\<lambda>b. block_type b = Some 0
                         \<and> \<not> (\<exists>bbox \<in> set [(50, 392, 300, 692)]. rect_intersects bbox (block_bbox b))
                         \<and> extract_clean_text b \<noteq> []) [?inside, ?outside])"
    by blast
  from shape have final: "map (\<lambda>it. (item_bbox it, item_text it)) items =
      [(Some (72, 100, 300, 120), Some ''Body text'')]"
    by (simp add: one_span_block_sel hit miss cleaned)
  show ?thesis
  proof (intro conjI exI)
    show "rect_intersects (50, 392, 300, 692) (60, 400, 200, 420)" by (rule hit)
    show "\<not> rect_intersects (50, 392, 300, 692) (72, 100, 300, 120)" by (rule miss)
    show "extract_text_blocks rect_intersects init_tracker (Inr [?inside, ?outside])
            [(50, 392, 300, 692)] = Inr (items, tr')" by (rule res)
    show "map (\<lambda>it. (item_bbox it, item_text it)) items =
      [(Some (72, 100, 300, 120), Some ''Body text'')]" by (rule final)
  qed
qed

text \<open>
  C2. A text block that reaches the Section Tracker (a text block that no suppression box
  intersects and whose normalized text is not empty) updates the tracker and is emitted as
  a paragraph stamped with the updated tracker: a heading-major block (\<open>h1\<close>) makes its
  text the current section and resets the sub-section to null; a heading-minor block
  (\<open>h2\<close>) makes its text the current sub-section and keeps the section; any other block
  leaves the tracker as it is. Every item of the output has type \<open>paragraph\<close>. Four such
  blocks in the order H1 \<open>Intro\<close>, P \<open>a\<close>, H2 \<open>Background\<close>, P \<open>b\<close> give four
  paragraphs labelled (Intro, null), (Intro, null), (Intro, Background),
  (Intro, Background).
\<close>

theorem section_tracker_update:
  "(block_type b = Some 0 \<and> \<not> (\<exists>bbox \<in> set ig. isect bbox (block_bbox b))
      \<and> extract_clean_text b \<noteq> []
    \<longrightarrow> (\<exists>it tr'. text_block_step isect ig tr b = (Some it, tr')
          \<and> (main_style b = ''h1''
               \<longrightarrow> tr' = \<lparr>current_section = extract_clean_text b, current_sub_section = None\<rparr>)
          \<and> (main_style b = ''h2''
               \<longrightarrow> tr' = \<lparr>current_section = current_section tr,
                          current_sub_section = Some (extract_clean_text b)\<rparr>)
          \<and> (main_style b \<noteq> ''h1'' \<and> main_style b \<noteq> ''h2'' \<longrightarrow> tr' = tr)
          \<and> it = \<lparr>item_type = ''paragraph'', item_bbox = Some (block_bbox b),
                   item_section = current_section tr',
                   item_sub_section = current_sub_section tr',
                   item_text = Some (extract_clean_text b),
                   item_table_data = None, item_description = None\<rparr>))
   \<and> (\<forall>items tr'. extract_text_blocks isect tr (Inr bs) ig = Inr (items, tr')
        \<longrightarrow> (\<forall>it \<in> set items. item_type it = ''paragraph''))
   \<and> ((\<forall>b \<in> set [b1, b2, b3, b4].
          block_type b = Some 0 \<and> \<not> (\<exists>bbox \<in> set ig. isect bbox (block_bbox b)))
        \<and> main_style b1 = ''h1'' \<and> extract_clean_text b1 = ''Intro''
        \<and> main_style b2 = ''p'' \<and> extract_clean_text b2 = ''a''
        \<and> main_style b3 = ''h2'' \<and> extract_clean_text b3 = ''Background''
        \<and> main_style b4 = ''p'' \<and> extract_clean_text b4 = ''b''
      \<longrightarrow> extract_text_blocks isect tr (Inr [b1, b2, b3, b4]) ig =
          Inr ([\<lparr>item_type = ''paragraph'', item_bbox = Some (block_bbox b1),
                  item_section = ''Intro'', item_sub_section = None,
                  item_text = Some ''Intro'',
                  item_table_data = None, item_description = None\<rparr>,
                \<lparr>item_type = ''paragraph'', item_bbox = Some (block_bbox b2),
                  item_section = ''Intro'', item_sub_section = None,
                  item_text = Some ''a'',
                  item_table_data = None, item_description = None\<rparr>,
                \<lparr>item_type = ''paragraph'', item_bbox = Some (block_bbox b3),
                  item_section = ''Intro'', item_sub_section = Some ''Background'',
                  item_text = Some ''Background'',
                  item_table_data = None, item_description = None\<rparr>,
                \<lparr>item_type = ''paragraph'', item_bbox = Some (block_bbox b4),
                  item_section = ''Intro'', item_sub_section = Some ''Background'',
                  item_text = Some ''b'',
                  item_table_data = None, item_description = None\<rparr>],
               \<lparr>current_section = ''Intro'', current_sub_section = Some ''Background''\<rparr>))"
proof (intro conjI)
  show "block_type b = Some 0 \<and> \<not> (\<exists>bbox \<in> set ig. isect bbox (block_bbox b))
      \<and> extract_clean_text b \<noteq> []
    \<longrightarrow> (\<exists>it tr'. text_block_step isect ig tr b = (Some it, tr')
          \<and> (main_style b = ''h1''
               \<longrightarrow> tr' = \<lparr>current_section = extract_clean_text b, current_sub_section = None\<rparr>)
          \<and> (main_style b = ''h2''
               \<longrightarrow> tr' = \<lparr>current_section = current_section tr,
                          current_sub_section = Some (extract_clean_text b)\<rparr>)
          \<and> (main_style b \<noteq> ''h1'' \<and> main_style b \<noteq> ''h2'' \<longrightarrow> tr' = tr)
          \<and> it = \<lparr>item_type = ''paragraph'', item_bbox = Some (block_bbox b),
                   item_section = current_section tr',
                   item_sub_section = current_sub_section tr',
                   item_text = Some (extract_clean_text b),
                   item_table_data = None, item_description = None\<rparr>)"
    by (simp add: text_block_step_emit suppressed_iff Let_def)
next
  show "\<forall>items tr'. extract_text_blocks isect tr (Inr bs) ig = Inr (items, tr')
        \<longrightarrow> (\<forall>it \<in> set items. item_type it = ''paragraph'')"
    using text_blocks_loop_paragraphs [of _ isect ig bs tr]
    by (auto simp: extract_text_blocks_def)
next
  show "(\<forall>b \<in> set [b1, b2, b3, b4].
          block_type b = Some 0 \<and> \<not> (\<exists>bbox \<in> set ig. isect bbox (block_bbox b)))
        \<and> main_style b1 = ''h1'' \<and> extract_clean_text b1 = ''Intro''
        \<and> main_style b2 = ''p'' \<and> extract_clean_text b2 = ''a''
        \<and> main_style b3 = ''h2'' \<and> extract_clean_text b3 = ''Background''
        \<and> main_style b4 = ''p'' \<and> extract_clean_text b4 = ''b''
      \<longrightarrow> extract_text_blocks isect tr (Inr [b1, b2, b3, b4]) ig =
          Inr ([\<lparr>item_type = ''paragraph'', item_bbox = Some (block_bbox b1),
                  item_section = ''Intro'', item_sub_section = None,
                  item_text = Some ''Intro'',
                  item_table_data = None, item_description = None\<rparr>,
                \<lparr>item_type = ''paragraph'', item_bbox = Some (block_bbox b2),
                  item_section = ''Intro'', item_sub_section = None,
                  item_text = Some ''a'',
                  item_table_data = None, item_description = None\<rparr>,
                \<lparr>item_type = ''paragraph'', item_bbox = Some (block_bbox b3),
                  item_section = ''Intro'', item_sub_section = Some ''Background'',
                  item_text = Some ''Background'',
                  item_table_data = None, item_description = None\<rparr>,
                \<lparr>item_type = ''paragraph'', item_bbox = Some (block_bbox b4),
                  item_section = ''Intro'', item_sub_section = Some ''Background'',
                  item_text = Some ''b'',
                  item_table_data = None, item_description = None\<rparr>],
               \<lparr>current_section = ''Intro'', current_sub_section = Some ''Background''\<rparr>)"
    by (simp add: extract_text_blocks_def text_block_step_emit suppressed_iff Let_def)
qed

theorem section_tracker_update_witness:
  "main_style (one_span_block 18 ''Arial'' ''Intro'' (72, 50, 300, 70)) = ''h1''
   \<and> main_style (one_span_block 10 ''Arial'' ''a'' (72, 80, 300, 90)) = ''p''
   \<and> main_style (one_span_block 12 ''Arial-BoldMT'' ''Background'' (72, 100, 300, 112)) = ''h2''
   \<and> main_style (one_span_block 10 ''Arial'' ''b'' (72, 120, 300, 130)) = ''p''
   \<and> extract_text_blocks rect_intersects init_tracker
        (Inr [one_span_block 18 ''Arial'' ''Intro'' (72, 50, 300, 70),
              one_span_block 10 ''Arial'' ''a'' (72, 80, 300, 90),
              one_span_block 12 ''Arial-BoldMT'' ''Background'' (72, 100, 300, 112),
              one_span_block 10 ''Arial'' ''b'' (72, 120, 300, 130)]) [] =
       Inr ([\<lparr>item_type = ''paragraph'', item_bbox = Some (72, 50, 300, 70),
               item_section = ''Intro'', item_sub_section = None,
               item_text = Some ''Intro'',
               item_table_data = None, item_description = None\<rparr>,
             \<lparr>item_type = ''paragraph'', item_bbox = Some (72, 80, 300, 90),
               item_section = ''Intro'', item_sub_section = None,
               item_text = Some ''a'',
               item_table_data = None, item_description = None\<rparr>,
             \<lparr>item_type = ''paragraph'', item_bbox = Some (72, 100, 300, 112),
               item_section = ''Intro'', item_sub_section = Some ''Background'',
               item_text = Some ''Background'',
               item_table_data = None, item_description = None\<rparr>,
             \<lparr>item_type = ''paragraph'', item_bbox = Some (72, 120, 300, 130),
               item_section = ''Intro'', item_sub_section = Some ''Background'',
               item_text = Some ''b'',
               item_table_data = None, item_description = None\<rparr>],
            \<lparr>current_section = ''Intro'', current_sub_section = Some ''Background''\<rparr>)"
proof -
  let ?b1 = "one_span_block 18 ''Arial'' ''Intro'' (72, 50, 300, 70)"
  let ?b2 = "one_span_block 10 ''Arial'' ''a'' (72, 80, 300, 90)"
  let ?b3 = "one_span_block 12 ''Arial-BoldMT'' ''Background'' (72, 100, 300, 112)"
  let ?b4 = "one_span_block 10 ''Arial'' ''b'' (72, 120, 300, 130)"
  have styles: "main_style ?b1 = ''h1''" "main_style ?b2 = ''p''"
    "main_style ?b3 = ''h2''" "main_style ?b4 = ''p''"
    by code_simp+
  have texts: "extract_clean_text ?b1 = ''Intro''" "extract_clean_text ?b2 = ''a''"
    "extract_clean_text ?b3 = ''Background''" "extract_clean_text ?b4 = ''b''"
    by code_simp+
  show ?thesis
    using section_tracker_update [of _ "[]" rect_intersects init_tracker _ ?b1 ?b2 ?b3 ?b4]
    by (simp add: styles texts one_span_block_sel)
qed

text \<open>
  C10. A text block whose bounding box intersects a suppression box leaves the Section
  Tracker as it was, whatever its style: the overlap test comes before the style is looked
  at. The blocks of a page give the same items and the same tracker as the same blocks
  without that block, so the blocks after it are labelled as if it had not been there.
\<close>

theorem suppressed_block_no_effect:
  "(\<exists>bbox \<in> set ig. isect bbox (block_bbox b))
   \<longrightarrow> text_block_step isect ig tr b = (None, tr)
     \<and> extract_text_blocks isect tr (Inr (bs1 @ b # bs2)) ig =
         extract_text_blocks isect tr (Inr (bs1 @ bs2)) ig"
proof
  assume "\<exists>bbox \<in> set ig. isect bbox (block_bbox b)"
  then have sup: "suppressed isect ig b" by (simp add: suppressed_iff)
  then have step: "text_block_step isect ig tr b = (None, tr)"
    by (simp add: text_block_step_skip)
  have "text_blocks_loop isect ig (bs1 @ b # bs2) tr [] =
      text_blocks_loop isect ig (bs1 @ bs2) tr []"
    using sup by (simp add: text_blocks_loop_append text_blocks_loop_Cons_skip
        del: text_blocks_loop.simps split: prod.split)
  then show "text_block_step isect ig tr b = (None, tr)
     \<and> extract_text_blocks isect tr (Inr (bs1 @ b # bs2)) ig =
         extract_text_blocks isect tr (Inr (bs1 @ bs2)) ig"
    using step by (simp add: extract_text_blocks_def)
qed

theorem suppressed_block_no_effect_witness:
  "rect_intersects (50, 392, 300, 692) (60, 400, 200, 420)
   \<and> main_style (one_span_block 18 ''Arial-BoldMT'' ''Parts list'' (60, 400, 200, 420)) = ''h1''
   \<and> text_block_step rect_intersects [(50, 392, 300, 692)]
        \<lparr>current_section = ''Intro'', current_sub_section = None\<rparr>
        (one_span_block 18 ''Arial-BoldMT'' ''Parts list'' (60, 400, 200, 420))
       = (None, \<lparr>current_section = ''Intro'', current_sub_section = None\<rparr>)
   \<and> extract_text_blocks rect_intersects init_tracker
        (Inr [one_span_block 18 ''Arial'' ''Intro'' (72, 50, 300, 70),
              one_span_block 18 ''Arial-BoldMT'' ''Parts list'' (60, 400, 200, 420),
              one_span_block 10 ''Arial'' ''Body text'' (72, 100, 300, 120)])
        [(50, 392, 300, 692)] =
       Inr ([\<lparr>item_type = ''paragraph'', item_bbox = Some (72, 50, 300, 70),
               item_section = ''Intro'', item_sub_section = None,
               item_text = Some ''Intro'',
               item_table_data = None, item_description = None\<rparr>,
             \<lparr>item_type = ''paragraph'', item_bbox = Some (72, 100, 300, 120),
               item_section = ''Intro'', item_sub_section = None,
               item_text = Some ''Body text'',
               item_table_data = None, item_description = None\<rparr>],
            \<lparr>current_section = ''Intro'', current_sub_section = None\<rparr>)"
proof -
  let ?h = "one_span_block 18 ''Arial'' ''Intro'' (72, 50, 300, 70)"
  let ?b = "one_span_block 18 ''Arial-BoldMT'' ''Parts list'' (60, 400, 200, 420)"
  let ?p = "one_span_block 10 ''Arial'' ''Body text'' (72, 100, 300, 120)"
  have hit: "rect_intersects (50, 392, 300, 692) (60, 400, 200, 420)"
    by (simp add: rect_intersects_def rect_is_empty_def)
  have style: "main_style ?b = ''h1''"
    by code_simp
  have without: "extract_text_blocks rect_intersects init_tracker (Inr [?h, ?p])
        [(50, 392, 300, 692)] =
       Inr ([\<lparr>item_type = ''paragraph'', item_bbox = Some (72, 50, 300, 70),
               item_section = ''Intro'', item_sub_section = None,
               item_text = Some ''Intro'',
               item_table_data = None, item_description = None\<rparr>,
             \<lparr>item_type = ''paragraph'', item_bbox = Some (72, 100, 300, 120),
               item_section = ''Intro'', item_sub_section = None,
               item_text = Some ''Body text'',
               item_table_data = None, item_description = None\<rparr>],
            \<lparr>current_section = ''Intro'', current_sub_section = None\<rparr>)"
    by code_simp
  show ?thesis
    using suppressed_block_no_effect [of "[(50, 392, 300, 692)]" rect_intersects ?b
        "\<lparr>current_section = ''Intro'', current_sub_section = None\<rparr>" "[?h]" "[?p]"]
      suppressed_block_no_effect [of "[(50, 392, 300, 692)]" rect_intersects ?b
        init_tracker "[?h]" "[?p]"]
    by (simp add: hit style without one_span_block_sel)
qed

section \<open>The Page Orchestrator\<close>

lemma del_bbox_none: "item_bbox (del_bbox it) = None"
  by (simp add: del_bbox_def)

lemma parse_page_success:
  assumes "extract_tables tr (read_pdf pg) (page_height pg) = (tables_data, table_bboxes)"
    and "extract_images tr n (get_images pg) = Inr (images_data, image_bboxes)"
    and "extract_text_blocks isect tr (get_text pg) (table_bboxes @ image_bboxes) =
          Inr (text_content, tr')"
  shows "parse_page isect tr n pg =
    (Inr (map del_bbox (sort_key top_edge (tables_data @ images_data @ text_content))), tr')"
  using assms by (simp add: parse_page_def)

lemma parse_page_returns:
  assumes "get_images pg = Inr imgs" and "get_text pg = Inr blocks"
  shows "\<exists>page_content tr'. parse_page isect tr n pg = (Inr page_content, tr')"
  using assms
  by (simp add: parse_page_def extract_images_def extract_text_blocks_def
      split: prod.split)

lemma parse_page_tracker:
  assumes "parse_page isect tr n pg = (Inr page_content, tr')"
  shows "\<exists>blocks ig. get_text pg = Inr blocks
    \<and> tr' = snd (text_blocks_loop isect ig blocks tr [])"
  using assms
  by (auto simp: parse_page_def extract_text_blocks_def Let_def
      split: prod.splits sum.splits) (metis snd_conv)

text \<open>
  C8. When the images and the text of a page can be read, \<open>parse_page\<close> returns. What it
  returns is the tables, images and paragraphs of the page, concatenated in this order and
  sorted by the top edge of their bounding boxes, ascending: a rearrangement of the
  concatenation whose top edges ascend and in which the items with one and the same top
  edge keep the order of the concatenation, tables before images before paragraphs. The
  bounding box is deleted from every item returned.
\<close>

theorem parse_page_sorted:
  "(get_images pg = Inr imgs \<and> get_text pg = Inr blocks
     \<longrightarrow> (\<exists>page_content tr'. parse_page isect tr n pg = (Inr page_content, tr')))
   \<and> (extract_tables tr (read_pdf pg) (page_height pg) = (tables_data, table_bboxes)
      \<and> extract_images tr n (get_images pg) = Inr (images_data, image_bboxes)
      \<and> extract_text_blocks isect tr (get_text pg) (table_bboxes @ image_bboxes) =
          Inr (text_content, tr')
      \<longrightarrow> (\<exists>sorted_content.
            parse_page isect tr n pg = (Inr (map del_bbox sorted_content), tr')
            \<and> mset sorted_content = mset (tables_data @ images_data @ text_content)
            \<and> sorted (map top_edge sorted_content)
            \<and> (\<forall>k. filter (\<lambda>it. top_edge it = k) sorted_content =
                   filter (\<lambda>it. top_edge it = k) tables_data
                   @ filter (\<lambda>it. top_edge it = k) images_data
                   @ filter (\<lambda>it. top_edge it = k) text_content)
            \<and> (\<forall>it \<in> set (map del_bbox sorted_content). item_bbox it = None)))"
proof (intro conjI impI)
  assume "get_images pg = Inr imgs \<and> get_text pg = Inr blocks"
  then show "\<exists>page_content tr'. parse_page isect tr n pg = (Inr page_content, tr')"
    using parse_page_returns [of pg imgs blocks isect tr n] by simp
next
  assume h: "extract_tables tr (read_pdf pg) (page_height pg) = (tables_data, table_bboxes)
      \<and> extract_images tr n (get_images pg) = Inr (images_data, image_bboxes)
      \<and> extract_text_blocks isect tr (get_text pg) (table_bboxes @ image_bboxes) =
          Inr (text_content, tr')"
  let ?all = "tables_data @ images_data @ text_content"
  let ?s = "sort_key top_edge ?all"
  from h have res: "parse_page isect tr n pg = (Inr (map del_bbox ?s), tr')"
    by (simp add: parse_page_success)
  have perm: "mset ?s = mset ?all" by simp
  have asc: "sorted (map top_edge ?s)" by (rule sorted_sort_key)
  have stable: "\<forall>k. filter (\<lambda>it. top_edge it = k) ?s =
                filter (\<lambda>it. top_edge it = k) tables_data
                @ filter (\<lambda>it. top_edge it = k) images_data
                @ filter (\<lambda>it. top_edge it = k) text_content"
    by (simp add: sort_key_stable)
  have nobox: "\<forall>it \<in> set (map del_bbox ?s). item_bbox it = None"
    by (auto simp: del_bbox_none)
  show "\<exists>sorted_content.
         parse_page isect tr n pg = (Inr (map del_bbox sorted_content), tr')
         \<and> mset sorted_content = mset (tables_data @ images_data @ text_content)
         \<and> sorted (map top_edge sorted_content)
         \<and> (\<forall>k. filter (\<lambda>it. top_edge it = k) sorted_content =
                filter (\<lambda>it. top_edge it = k) tables_data
                @ filter (\<lambda>it. top_edge it = k) images_data
                @ filter (\<lambda>it. top_edge it = k) text_content)
         \<and> (\<forall>it \<in> set (map del_bbox sorted_content). item_bbox it = None)"
    using res perm asc stable nobox by (intro exI [of _ ?s] conjI)
qed

theorem parse_page_sorted_witness:
  "(\<exists>tables_data images_data text_content tr' sorted_content.
      extract_tables init_tracker (read_pdf example_page) (page_height example_page) =
        (tables_data, [(50, 392, 300, 692)])
      \<and> extract_images init_tracker 0 (get_images example_page) =
        Inr (images_data, [(320, 100, 500, 200)])
      \<and> extract_text_blocks rect_intersects init_tracker (get_text example_page)
          ([(50, 392, 300, 692)] @ [(320, 100, 500, 200)]) = Inr (text_content, tr')
      \<and> map top_edge (tables_data @ images_data @ text_content) = [392, 100, 50, 100, 700]
      \<and> parse_page rect_intersects init_tracker 0 example_page =
          (Inr (map del_bbox sorted_content), tr')
      \<and> mset sorted_content = mset (tables_data @ images_data @ text_content)
      \<and> sorted (map top_edge sorted_content))
   \<and> parse_page rect_intersects init_tracker 0 example_page =
       (Inr [\<lparr>item_type = ''paragraph'', item_bbox = None,
               item_section = ''Intro'', item_sub_section = None,
               item_text = Some ''Intro'', item_table_data = None,
               item_description = None\<rparr>,
             \<lparr>item_type = ''chart'', item_bbox = None,
               item_section = ''Default'', item_sub_section = None,
               item_text = None, item_table_data = None,
               item_description = Some ''Chart or image found on page 1''\<rparr>,
             \<lparr>item_type = ''paragraph'', item_bbox = None,
               item_section = ''Intro'', item_sub_section = None,
               item_text = Some ''Body text'', item_table_data = None,
               item_description = None\<rparr>,
             \<lparr>item_type = ''table'', item_bbox = None,
               item_section = ''Default'', item_sub_section = None,
               item_text = None,
               item_table_data = Some [[''Name'', ''Qty'', ''Price''], [''Bolt'', ''4'', ''0.25'']],
               item_description = None\<rparr>,
             \<lparr>item_type = ''paragraph'', item_bbox = None,
               item_section = ''Intro'', item_sub_section = None,
               item_text = Some ''Closing'', item_table_data = None,
               item_description = None\<rparr>],
        \<lparr>current_section = ''Intro'', current_sub_section = None\<rparr>)"
proof -
  let ?td = "[\<lparr>item_type = ''table'', item_bbox = Some (50, 392, 300, 692),
               item_section = ''Default'', item_sub_section = None,
               item_text = None,
               item_table_data = Some [[''Name'', ''Qty'', ''Price''], [''Bolt'', ''4'', ''0.25'']],
               item_description = None\<rparr>]"
  let ?im = "[\<lparr>item_type = ''chart'', item_bbox = Some (320, 100, 500, 200),
               item_section = ''Default'', item_sub_section = None,
               item_text = None, item_table_data = None,
               item_description = Some ''Chart or image found on page 1''\<rparr>]"
  let ?tc = "[\<lparr>item_type = ''paragraph'', item_bbox = Some (72, 50, 300, 70),
               item_section = ''Intro'', item_sub_section = None,
               item_text = Some ''Intro'', item_table_data = None,
               item_description = None\<rparr>,
             \<lparr>item_type = ''paragraph'', item_bbox = Some (72, 100, 300, 120),
               item_section = ''Intro'', item_sub_section = None,
               item_text = Some ''Body text'', item_table_data = None,
               item_description = None\<rparr>,
             \<lparr>item_type = ''paragraph'', item_bbox = Some (72, 700, 300, 720),
               item_section = ''Intro'', item_sub_section = None,
               item_text = Some ''Closing'', item_table_data = None,
               item_description = None\<rparr>]"
  let ?tr = "\<lparr>current_section = ''Intro'', current_sub_section = None\<rparr>"
  have tables: "extract_tables init_tracker (read_pdf example_page) (page_height example_page) =
        (?td, [(50, 392, 300, 692)])"
    by code_simp
  have images: "extract_images init_tracker 0 (get_images example_page) =
        Inr (?im, [(320, 100, 500, 200)])"
    by code_simp
  have paragraphs: "extract_text_blocks rect_intersects init_tracker (get_text example_page)
          ([(50, 392, 300, 692)] @ [(320, 100, 500, 200)]) = Inr (?tc, ?tr)"
    by code_simp
  have edges: "map top_edge (?td @ ?im @ ?tc) = [392, 100, 50, 100, 700]"
    by (simp add: top_edge_def)
  have whole: "parse_page rect_intersects init_tracker 0 example_page =
       (Inr [\<lparr>item_type = ''paragraph'', item_bbox = None,
               item_section = ''Intro'', item_sub_section = None,
               item_text = Some ''Intro'', item_table_data = None,
               item_description = None\<rparr>,
             \<lparr>item_type = ''chart'', item_bbox = None,
               item_section = ''Default'', item_sub_section = None,
               item_text = None, item_table_data = None,
               item_description = Some ''Chart or image found on page 1''\<rparr>,
             \<lparr>item_type = ''paragraph'', item_bbox = None,
               item_section = ''Intro'', item_sub_section = None,
               item_text = Some ''Body text'', item_table_data = None,
               item_description = None\<rparr>,
             \<lparr>item_type = ''table'', item_bbox = None,
               item_section = ''Default'', item_sub_section = None,
               item_text = None,
               item_table_data = Some [[''Name'', ''Qty'', ''Price''], [''Bolt'', ''4'', ''0.25'']],
               item_description = None\<rparr>,
             \<lparr>item_type = ''paragraph'', item_bbox = None,
               item_section = ''Intro'', item_sub_section = None,
               item_text = Some ''Closing'', item_table_data = None,
               item_description = None\<rparr>], ?tr)"
    by code_simp
  from parse_page_sorted [of example_page _ _ rect_intersects init_tracker 0
      ?td "[(50, 392, 300, 692)]" ?im "[(320, 100, 500, 200)]" ?tc ?tr]
    tables images paragraphs
  obtain sorted_content where
    sc: "parse_page rect_intersects init_tracker 0 example_page =
           (Inr (map del_bbox sorted_content), ?tr)"
      "mset sorted_content = mset (?td @ ?im @ ?tc)"
      "sorted (map top_edge sorted_content)"
    by blast
  have "\<exists>tables_data images_data text_content tr' sorted_content.
      extract_tables init_tracker (read_pdf example_page) (page_height example_page) =
        (tables_data, [(50, 392, 300, 692)])
      \<and> extract_images init_tracker 0 (get_images example_page) =
        Inr (images_data, [(320, 100, 500, 200)])
      \<and> extract_text_blocks rect_intersects init_tracker (get_text example_page)
          ([(50, 392, 300, 692)] @ [(320, 100, 500, 200)]) = Inr (text_content, tr')
      \<and> map top_edge (tables_data @ images_data @ text_content) = [392, 100, 50, 100, 700]
      \<and> parse_page rect_intersects init_tracker 0 example_page =
          (Inr (map del_bbox sorted_content), tr')
      \<and> mset sorted_content = mset (tables_data @ images_data @ text_content)
      \<and> sorted (map top_edge sorted_content)"
    using tables images paragraphs edges sc
    by (intro exI [of _ ?td] exI [of _ ?im] exI [of _ ?tc] exI [of _ ?tr]
        exI [of _ sorted_content] conjI)
  with whole show ?thesis by (intro conjI)
qed

section \<open>The Document Orchestrator\<close>

lemma pages_loop_upt:
  assumes "pages_loop isect doc [k..<m] (tracker_before isect doc k) out = (Inr res, tr_end)"
    and "k \<le> m" and "m \<le> length doc"
  shows "length res = length out + (m - k) \<and> take (length out) res = out
    \<and> tr_end = tracker_before isect doc m
    \<and> (\<forall>n. k \<le> n \<and> n < m \<longrightarrow>
         page_number (res ! (length out + (n - k))) = n + 1
         \<and> parse_page isect (tracker_before isect doc n) n (doc ! n) =
             (Inr (content (res ! (length out + (n - k)))), tracker_before isect doc (Suc n)))"
  using assms
proof (induction "m - k" arbitrary: k out)
  case 0
  then have "k = m" by simp
  with "0.prems" show ?case by (auto simp del: tracker_before.simps)
next
  case (Suc d)
  then have lt: "k < m" by simp
  then have upt: "[k..<m] = k # [Suc k..<m]" by (simp add: upt_conv_Cons)
  have inside: "\<not> length doc \<le> k" using lt Suc.prems by simp
  obtain r tr1 where pp: "parse_page isect (tracker_before isect doc k) k (doc ! k) = (r, tr1)"
    by (cases "parse_page isect (tracker_before isect doc k) k (doc ! k)")
  then have tr1: "tr1 = tracker_before isect doc (Suc k)" by simp
  have loop: "pages_loop isect doc (k # [Suc k..<m]) (tracker_before isect doc k) out =
      (Inr res, tr_end)"
    using Suc.prems(1) upt by simp
  obtain c where r: "r = Inr c"
    using loop inside pp by (cases r) (simp_all del: tracker_before.simps)
  let ?pg = "\<lparr>page_number = k + 1, content = c\<rparr>"
  have "pages_loop isect doc [Suc k..<m] tr1 (out @ [?pg]) = (Inr res, tr_end)"
    using loop inside pp r by (simp del: tracker_before.simps)
  then have rest: "pages_loop isect doc [Suc k..<m] (tracker_before isect doc (Suc k))
      (out @ [?pg]) = (Inr res, tr_end)"
    by (simp only: tr1)
  have d: "d = m - Suc k" using Suc.hyps(2) by simp
  have ih: "length res = length (out @ [?pg]) + (m - Suc k)
    \<and> take (length (out @ [?pg])) res = out @ [?pg]
    \<and> tr_end = tracker_before isect doc m
    \<and> (\<forall>n. Suc k \<le> n \<and> n < m \<longrightarrow>
         page_number (res ! (length (out @ [?pg]) + (n - Suc k))) = n + 1
         \<and> parse_page isect (tracker_before isect doc n) n (doc ! n) =
             (Inr (content (res ! (length (out @ [?pg]) + (n - Suc k)))),
              tracker_before isect doc (Suc n)))"
    using Suc.hyps(1) [OF d rest] lt Suc.prems(3) by (simp del: tracker_before.simps)
  from ih have len: "length res = length out + (m - k)"
    using lt by (simp del: tracker_before.simps)
  from ih have tk: "take (Suc (length out)) res = out @ [?pg]"
    by (simp del: tracker_before.simps)
  have longer: "length out < length res" using len lt by simp
  then have "take (Suc (length out)) res = take (length out) res @ [res ! length out]"
    by (simp add: take_Suc_conv_app_nth)
  with tk have front: "take (length out) res = out" and at_k: "res ! length out = ?pg"
    by simp_all
  have each: "\<forall>n. k \<le> n \<and> n < m \<longrightarrow>
         page_number (res ! (length out + (n - k))) = n + 1
         \<and> parse_page isect (tracker_before isect doc n) n (doc ! n) =
             (Inr (content (res ! (length out + (n - k)))), tracker_before isect doc (Suc n))"
  proof (intro allI impI)
    fix n
    assume range: "k \<le> n \<and> n < m"
    show "page_number (res ! (length out + (n - k))) = n + 1
         \<and> parse_page isect (tracker_before isect doc n) n (doc ! n) =
             (Inr (content (res ! (length out + (n - k)))), tracker_before isect doc (Suc n))"
    proof (cases "n = k")
      case True
      then show ?thesis
        by (simp add: at_k pp r tr1 [symmetric] del: tracker_before.simps)
    next
      case False
      with range have up: "Suc k \<le> n \<and> n < m" by simp
      then have idx: "length (out @ [?pg]) + (n - Suc k) = length out + (n - k)" by auto
      from ih up have "page_number (res ! (length (out @ [?pg]) + (n - Suc k))) = n + 1
         \<and> parse_page isect (tracker_before isect doc n) n (doc ! n) =
             (Inr (content (res ! (length (out @ [?pg]) + (n - Suc k)))),
              tracker_before isect doc (Suc n))"
        by blast
      then show ?thesis by (simp only: idx)
    qed
  qed
  from len front ih each show ?case by blast
qed

lemma parse_handle:
  assumes "parse isect env tr pdf_path = (r, tr', h)"
  shows "(h = Closed \<longleftrightarrow> (\<exists>out. r = Inr (Some out)))
    \<and> (h = Opened \<longleftrightarrow> (\<exists>e. r = Inl e))
    \<and> (h = Not_opened \<longleftrightarrow> r = Inr None)"
  using assms by (auto simp: parse_def split: if_splits sum.splits prod.splits)

text \<open>
  C3. In one parse of a document the tracker starts as (\<open>Default\<close>, null) and is handed
  from page to page: when the parse returns its output, every page \<open>n\<close> was parsed from
  the tracker left by the pages before it (the initial tracker for the first page), the
  loop over the blocks of page \<open>n\<close> started from that tracker, and the tracker that loop
  ended with is the one page \<open>n + 1\<close> started from. Nothing resets it in between.
\<close>

theorem tracker_persists_across_pages:
  "path_exists env pdf_path \<and> fitz_open env pdf_path = Inr doc
   \<and> parse_pdf isect env pdf_path = (Inr (Some out), tr_end, h)
   \<longrightarrow> tracker_before isect doc 0 = \<lparr>current_section = ''Default'', current_sub_section = None\<rparr>
     \<and> length (pages out) = length doc
     \<and> tr_end = tracker_before isect doc (length doc)
     \<and> (\<forall>n. n < length doc \<longrightarrow>
          page_number (pages out ! n) = n + 1
          \<and> parse_page isect (tracker_before isect doc n) n (doc ! n) =
              (Inr (content (pages out ! n)), tracker_before isect doc (Suc n))
          \<and> (\<exists>blocks ig. get_text (doc ! n) = Inr blocks
                \<and> tracker_before isect doc (Suc n) =
                    snd (text_blocks_loop isect ig blocks (tracker_before isect doc n) [])))"
proof
  assume h: "path_exists env pdf_path \<and> fitz_open env pdf_path = Inr doc
   \<and> parse_pdf isect env pdf_path = (Inr (Some out), tr_end, h)"
  obtain r tr1 where loop: "pages_loop isect doc [0..<length doc] init_tracker [] = (r, tr1)"
    by (cases "pages_loop isect doc [0..<length doc] init_tracker []")
  from h loop have r: "r = Inr (pages out)" and tr1: "tr1 = tr_end"
    by (auto simp: parse_pdf_def parse_def split: sum.splits)
  have start: "tracker_before isect doc 0 = init_tracker" by simp
  have run: "pages_loop isect doc [0..<length doc] (tracker_before isect doc 0) [] =
      (Inr (pages out), tr_end)"
    using loop r tr1 by simp
  have facts: "length (pages out) = length doc
    \<and> tr_end = tracker_before isect doc (length doc)
    \<and> (\<forall>n. n < length doc \<longrightarrow>
         page_number (pages out ! n) = n + 1
         \<and> parse_page isect (tracker_before isect doc n) n (doc ! n) =
             (Inr (content (pages out ! n)), tracker_before isect doc (Suc n)))"
    using pages_loop_upt [OF run] by (simp del: tracker_before.simps)
  have each: "\<forall>n. n < length doc \<longrightarrow>
          page_number (pages out ! n) = n + 1
          \<and> parse_page isect (tracker_before isect doc n) n (doc ! n) =
              (Inr (content (pages out ! n)), tracker_before isect doc (Suc n))
          \<and> (\<exists>blocks ig. get_text (doc ! n) = Inr blocks
                \<and> tracker_before isect doc (Suc n) =
                    snd (text_blocks_loop isect ig blocks (tracker_before isect doc n) []))"
  proof (intro allI impI)
    fix n
    assume "n < length doc"
    with facts have pg: "page_number (pages out ! n) = n + 1"
      and pp: "parse_page isect (tracker_before isect doc n) n (doc ! n) =
              (Inr (content (pages out ! n)), tracker_before isect doc (Suc n))"
      by (simp_all del: tracker_before.simps)
    from parse_page_tracker [OF pp] pg pp
    show "page_number (pages out ! n) = n + 1
          \<and> parse_page isect (tracker_before isect doc n) n (doc ! n) =
              (Inr (content (pages out ! n)), tracker_before isect doc (Suc n))
          \<and> (\<exists>blocks ig. get_text (doc ! n) = Inr blocks
                \<and> tracker_before isect doc (Suc n) =
                    snd (text_blocks_loop isect ig blocks (tracker_before isect doc n) []))"
      by blast
  qed
  from facts each show "tracker_before isect doc 0 =
       \<lparr>current_section = ''Default'', current_sub_section = None\<rparr>
     \<and> length (pages out) = length doc
     \<and> tr_end = tracker_before isect doc (length doc)
     \<and> (\<forall>n. n < length doc \<longrightarrow>
          page_number (pages out ! n) = n + 1
          \<and> parse_page isect (tracker_before isect doc n) n (doc ! n) =
              (Inr (content (pages out ! n)), tracker_before isect doc (Suc n))
          \<and> (\<exists>blocks ig. get_text (doc ! n) = Inr blocks
                \<and> tracker_before isect doc (Suc n) =
                    snd (text_blocks_loop isect ig blocks (tracker_before isect doc n) [])))"
    by (simp add: init_tracker_def del: tracker_before.simps(2))
qed

theorem tracker_persists_across_pages_witness:
  "path_exists (example_env [example_page, example_page_plain]) ''report.pdf''
   \<and> fitz_open (example_env [example_page, example_page_plain]) ''report.pdf'' =
       Inr [example_page, example_page_plain]
   \<and> (\<exists>out tr_end h.
        parse_pdf rect_intersects (example_env [example_page, example_page_plain]) ''report.pdf'' =
          (Inr (Some out), tr_end, h)
        \<and> tracker_before rect_intersects [example_page, example_page_plain] 1 =
            \<lparr>current_section = ''Intro'', current_sub_section = None\<rparr>
        \<and> parse_page rect_intersects \<lparr>current_section = ''Intro'', current_sub_section = None\<rparr>
            1 example_page_plain =
            (Inr (content (pages out ! 1)),
             tracker_before rect_intersects [example_page, example_page_plain] 2)
        \<and> content (pages out ! 1) =
            [\<lparr>item_type = ''paragraph'', item_bbox = None,
              item_section = ''Intro'', item_sub_section = None,
              item_text = Some ''Continued'', item_table_data = None,
              item_description = None\<rparr>])"
proof -
  let ?doc = "[example_page, example_page_plain]"
  let ?env = "example_env ?doc"
  let ?out = "\<lparr>file_path = ''report.pdf'', total_pages = 2,
      pages =
        [\<lparr>page_number = 1,
          content =
            [\<lparr>item_type = ''paragraph'', item_bbox = None,
               item_section = ''Intro'', item_sub_section = None,
               item_text = Some ''Intro'', item_table_data = None,
               item_description = None\<rparr>,
             \<lparr>item_type = ''chart'', item_bbox = None,
               item_section = ''Default'', item_sub_section = None,
               item_text = None, item_table_data = None,
               item_description = Some ''Chart or image found on page 1''\<rparr>,
             \<lparr>item_type = ''paragraph'', item_bbox = None,
               item_section = ''Intro'', item_sub_section = None,
               item_text = Some ''Body text'', item_table_data = None,
               item_description = None\<rparr>,
             \<lparr>item_type = ''table'', item_bbox = None,
               item_section = ''Default'', item_sub_section = None,
               item_text = None,
               item_table_data = Some [[''Name'', ''Qty'', ''Price''], [''Bolt'', ''4'', ''0.25'']],
               item_description = None\<rparr>,
             \<lparr>item_type = ''paragraph'', item_bbox = None,
               item_section = ''Intro'', item_sub_section = None,
               item_text = Some ''Closing'', item_table_data = None,
               item_description = None\<rparr>]\<rparr>,
         \<lparr>page_number = 2,
          content =
            [\<lparr>item_type = ''paragraph'', item_bbox = None,
               item_section = ''Intro'', item_sub_section = None,
               item_text = Some ''Continued'', item_table_data = None,
               item_description = None\<rparr>]\<rparr>]\<rparr>"
  let ?tr = "\<lparr>current_section = ''Intro'', current_sub_section = None\<rparr>"
  have there: "path_exists ?env ''report.pdf''"
    and opened: "fitz_open ?env ''report.pdf'' = Inr ?doc"
    by (simp_all add: example_env_def)
  have run: "parse_pdf rect_intersects ?env ''report.pdf'' = (Inr (Some ?out), ?tr, Closed)"
    by code_simp
  have before: "tracker_before rect_intersects ?doc 1 = ?tr"
    by code_simp
  then have before_Suc: "tracker_before rect_intersects ?doc (Suc 0) = ?tr"
    by (simp del: tracker_before.simps)
  have given: "path_exists ?env ''report.pdf'' \<and> fitz_open ?env ''report.pdf'' = Inr ?doc
      \<and> parse_pdf rect_intersects ?env ''report.pdf'' = (Inr (Some ?out), ?tr, Closed)"
    using there opened run by (intro conjI)
  have inrange: "1 < length ?doc" by simp
  note at_second = mp [OF mp [OF tracker_persists_across_pages given,
        THEN conjunct2, THEN conjunct2, THEN conjunct2, THEN spec] inrange,
      THEN conjunct2, THEN conjunct1]
  then have second: "parse_page rect_intersects ?tr 1 example_page_plain =
      (Inr (content (pages ?out ! 1)), tracker_before rect_intersects ?doc 2)"
    by (simp add: before_Suc numeral_2_eq_2 del: tracker_before.simps)
  have "\<exists>out tr_end h.
        parse_pdf rect_intersects ?env ''report.pdf'' = (Inr (Some out), tr_end, h)
        \<and> tracker_before rect_intersects ?doc 1 = ?tr
        \<and> parse_page rect_intersects ?tr 1 example_page_plain =
            (Inr (content (pages out ! 1)), tracker_before rect_intersects ?doc 2)
        \<and> content (pages out ! 1) =
            [\<lparr>item_type = ''paragraph'', item_bbox = None,
              item_section = ''Intro'', item_sub_section = None,
              item_text = Some ''Continued'', item_table_data = None,
              item_description = None\<rparr>]"
    using run before second
    by (intro exI [of _ ?out] exI [of _ ?tr] exI [of _ Closed] conjI) simp_all
  with there opened show ?thesis by (intro conjI)
qed

text \<open>
  C7, at a document of two pages whose second page cannot be read: the exception of the
  second page leaves \<open>parse\<close>, and the handle that \<open>fitz.open\<close> returned is still open;
  \<open>doc.close()\<close> is only reached when every page has been parsed.
\<close>

theorem parse_leaves_handle_open:
  "parse_pdf rect_intersects (example_env [example_page, example_page_broken]) ''report.pdf'' =
     (Inl (Exception ''cannot load page''),
      \<lparr>current_section = ''Intro'', current_sub_section = None\<rparr>, Opened)"
  by code_simp

end
